theory Spec2Isabelle
  imports Complex_Main "HOL-Library.Multiset"
begin

section \<open>Text and numbers of the host language\<close>

text \<open>
  The dashboard is TypeScript. Its strings are modelled as lists of 8-bit characters, so the
  model covers cell text over the Latin-1 range; case conversion is modelled on the ASCII
  letters and leaves every other character alone. Its numbers are IEEE doubles: a finite
  double is represented by the rational it denotes, next to \<open>NaN\<close> and the two infinities
  (the sign of zero is not kept; nothing below depends on it).
\<close>

datatype jsnum = NaN | PosInf | NegInf | Fin rat

text \<open>A cell of a raw row is text or a number (\<open>string | number\<close>); a missing property
  (\<open>undefined\<close>) is \<open>None\<close> of \<open>cell option\<close>.\<close>

datatype cell = CNum jsnum | CStr string

subsection \<open>Characters\<close>

definition isWhiteSpace :: "char \<Rightarrow> bool" where
  \<comment> \<open>the class \<open>\s\<close> (and what \<open>trim\<close> strips), restricted to 8-bit characters\<close>
  "isWhiteSpace c \<longleftrightarrow>
     c = CHR 0x09 \<or> c = CHR 0x0A \<or> c = CHR 0x0B \<or> c = CHR 0x0C \<or> c = CHR 0x0D
     \<or> c = CHR '' '' \<or> c = CHR 0xA0"

definition isDigit :: "char \<Rightarrow> bool" where
  "isDigit c \<longleftrightarrow> c \<in> set ''0123456789''"

definition isUpperAZ :: "char \<Rightarrow> bool" where
  "isUpperAZ c \<longleftrightarrow> c \<in> set ''ABCDEFGHIJKLMNOPQRSTUVWXYZ''"

definition isLowerAZ :: "char \<Rightarrow> bool" where
  "isLowerAZ c \<longleftrightarrow> c \<in> set ''abcdefghijklmnopqrstuvwxyz''"

definition upperChar :: "char \<Rightarrow> char" where
  "upperChar c =
     (case map_of (zip ''abcdefghijklmnopqrstuvwxyz'' ''ABCDEFGHIJKLMNOPQRSTUVWXYZ'') c of
        Some d \<Rightarrow> d
      | None \<Rightarrow> c)"

definition lowerChar :: "char \<Rightarrow> char" where
  "lowerChar c =
     (case map_of (zip ''ABCDEFGHIJKLMNOPQRSTUVWXYZ'' ''abcdefghijklmnopqrstuvwxyz'') c of
        Some d \<Rightarrow> d
      | None \<Rightarrow> c)"

definition toUpperCase :: "string \<Rightarrow> string" where
  "toUpperCase s = map upperChar s"

definition toLowerCase :: "string \<Rightarrow> string" where
  "toLowerCase s = map lowerChar s"

definition trim :: "string \<Rightarrow> string" where
  "trim s = rev (dropWhile isWhiteSpace (rev (dropWhile isWhiteSpace s)))"

definition digitVal :: "char \<Rightarrow> nat" where
  "digitVal c = (case map_of (zip ''0123456789'' [0, 1, 2, 3, 4, 5, 6, 7, 8, 9]) c of Some d \<Rightarrow> d | None \<Rightarrow> 0)"

definition digitsVal :: "string \<Rightarrow> nat" where
  "digitsVal ds = foldl (\<lambda>a c. 10 * a + digitVal c) 0 ds"

fun join :: "string \<Rightarrow> string list \<Rightarrow> string" where
  "join sep [] = []"
| "join sep [x] = x"
| "join sep (x # y # ys) = x @ sep @ join sep (y # ys)"

subsection \<open>Conversion of text to a number: \<open>Number(value)\<close>\<close>

text \<open>
  \<open>Number\<close> applied to a string reads the whole trimmed text as a numeric literal: empty text
  is 0; otherwise an unsigned binary, octal or hexadecimal integer literal, or a signed
  decimal literal with optional fraction and exponent, or a signed \<open>Infinity\<close>; anything else
  is \<open>NaN\<close>. The mathematical value is then rounded to the nearest double, ties to even, and
  overflows to an infinity.
\<close>

definition pow2 :: "int \<Rightarrow> rat" where
  "pow2 k = (if 0 \<le> k then 2 ^ nat k else 1 / 2 ^ nat (- k))"

fun bitLength :: "nat \<Rightarrow> nat" where
  "bitLength n = (if n = 0 then 0 else Suc (bitLength (n div 2)))"

declare bitLength.simps [simp del]

definition floorLog2 :: "rat \<Rightarrow> int" where
  \<comment> \<open>for \<open>a > 0\<close>: the \<open>e\<close> with \<open>2 ^ e \<le> a < 2 ^ (e + 1)\<close>\<close>
  "floorLog2 a =
     (let (n, d) = quotient_of a;
          e0 = int (bitLength (nat n)) - int (bitLength (nat d))
      in if pow2 e0 \<le> a then e0 else e0 - 1)"

definition roundHalfEven :: "rat \<Rightarrow> int" where
  "roundHalfEven q =
     (let f = \<lfloor>q\<rfloor>; r = q - of_int f
      in if r < 1 / 2 then f else if 1 / 2 < r then f + 1 else if even f then f else f + 1)"

definition roundToDouble :: "rat \<Rightarrow> jsnum" where
  "roundToDouble q =
     (if q = 0 then Fin 0
      else
        let a = \<bar>q\<bar>;
            e = max (floorLog2 a) (- 1022);
            ulp = pow2 (e - 52);
            v = of_int (roundHalfEven (a / ulp)) * ulp
        in if pow2 1024 \<le> v then (if q < 0 then NegInf else PosInf)
           else Fin (if q < 0 then - v else v))"

definition isHexDigit :: "char \<Rightarrow> bool" where
  "isHexDigit c \<longleftrightarrow> isDigit c
     \<or> (65 \<le> (of_char c :: nat) \<and> (of_char c :: nat) \<le> 70)
     \<or> (97 \<le> (of_char c :: nat) \<and> (of_char c :: nat) \<le> 102)"

definition hexVal :: "char \<Rightarrow> nat" where
  "hexVal c = (if isDigit c then digitVal c
               else if (of_char c :: nat) \<le> 70 then of_char c - 55 else of_char c - 87)"

definition radixVal :: "nat \<Rightarrow> string \<Rightarrow> nat" where
  "radixVal b ds = foldl (\<lambda>a c. b * a + hexVal c) 0 ds"

definition parseNonDecimal :: "string \<Rightarrow> nat option" where
  "parseNonDecimal s =
     (case s of
        z # p # ds \<Rightarrow>
          if z \<noteq> CHR ''0'' \<or> ds = [] then None
          else if (p = CHR ''x'' \<or> p = CHR ''X'') \<and> list_all isHexDigit ds
            then Some (radixVal 16 ds)
          else if (p = CHR ''o'' \<or> p = CHR ''O'') \<and> list_all (\<lambda>c. isDigit c \<and> hexVal c < 8) ds
            then Some (radixVal 8 ds)
          else if (p = CHR ''b'' \<or> p = CHR ''B'') \<and> list_all (\<lambda>c. isDigit c \<and> hexVal c < 2) ds
            then Some (radixVal 2 ds)
          else None
      | _ \<Rightarrow> None)"

definition parseExponent :: "string \<Rightarrow> (bool \<times> nat) option" where
  \<comment> \<open>the text after \<open>e\<close> or \<open>E\<close>: an optional sign and at least one digit\<close>
  "parseExponent r =
     (let (neg, ds) =
            (case r of
               [] \<Rightarrow> (False, [])
             | d # r' \<Rightarrow> if d = CHR ''-'' then (True, r')
                         else if d = CHR ''+'' then (False, r') else (False, r))
      in if ds \<noteq> [] \<and> list_all isDigit ds then Some (neg, digitsVal ds) else None)"

definition parseUnsignedDecimal :: "string \<Rightarrow> rat option" where
  "parseUnsignedDecimal s =
     (let ip = takeWhile isDigit s;
          r1 = dropWhile isDigit s;
          (fp, r2) =
            (case r1 of
               [] \<Rightarrow> ([], [])
             | c # r \<Rightarrow> if c = CHR ''.'' then (takeWhile isDigit r, dropWhile isDigit r)
                        else ([], r1))
      in if ip = [] \<and> fp = [] then None
         else
           let mant = of_nat (digitsVal (ip @ fp)) / 10 ^ length fp
           in (case r2 of
                 [] \<Rightarrow> Some mant
               | c # r \<Rightarrow>
                   if c = CHR ''e'' \<or> c = CHR ''E'' then
                     (case parseExponent r of
                        None \<Rightarrow> None
                      | Some (neg, k) \<Rightarrow> Some (if neg then mant / 10 ^ k else mant * 10 ^ k))
                   else None))"

definition parseSignedDecimal :: "string \<Rightarrow> jsnum" where
  "parseSignedDecimal s =
     (let (neg, u) =
            (case s of
               [] \<Rightarrow> (False, [])
             | c # r \<Rightarrow> if c = CHR ''-'' then (True, r)
                        else if c = CHR ''+'' then (False, r) else (False, s))
      in if u = ''Infinity'' then (if neg then NegInf else PosInf)
         else (case parseUnsignedDecimal u of
                 None \<Rightarrow> NaN
               | Some q \<Rightarrow> roundToDouble (if neg then - q else q)))"

definition stringToNumber :: "string \<Rightarrow> jsnum" where
  "stringToNumber s =
     (let t = trim s
      in if t = [] then Fin 0
         else (case parseNonDecimal t of
                 Some n \<Rightarrow> roundToDouble (of_nat n)
               | None \<Rightarrow> parseSignedDecimal t))"

definition toNumber :: "cell option \<Rightarrow> jsnum" where
  \<comment> \<open>\<open>Number(value)\<close> for \<open>value: string | number | undefined\<close>\<close>
  "toNumber v = (case v of None \<Rightarrow> NaN | Some (CNum n) \<Rightarrow> n | Some (CStr s) \<Rightarrow> stringToNumber s)"


definition mathRound :: "rat \<Rightarrow> int" where
  \<comment> \<open>\<open>Math.round\<close>: the nearest integer, a tie going up\<close>
  "mathRound x = \<lfloor>x + 1 / 2\<rfloor>"

subsection \<open>Text of a cell, truthiness, insertion-ordered collections\<close>

definition cellText :: "(jsnum \<Rightarrow> string) \<Rightarrow> cell option \<Rightarrow> string" where
  \<comment> \<open>\<open>String(value ?? "")\<close>; the decimal rendering of a number is the parameter \<open>numStr\<close>\<close>
  "cellText numStr v =
     (case v of None \<Rightarrow> [] | Some (CStr s) \<Rightarrow> s | Some (CNum n) \<Rightarrow> numStr n)"

definition truthy :: "cell option \<Rightarrow> bool" where
  \<comment> \<open>what \<open>value || fallback\<close> tests: \<open>undefined\<close>, the empty string, 0 and \<open>NaN\<close> are falsy\<close>
  "truthy v =
     (case v of
        None \<Rightarrow> False
      | Some (CStr s) \<Rightarrow> s \<noteq> []
      | Some (CNum n) \<Rightarrow> n \<noteq> Fin 0 \<and> n \<noteq> NaN)"

definition textOr :: "(jsnum \<Rightarrow> string) \<Rightarrow> cell option \<Rightarrow> string \<Rightarrow> string" where
  \<comment> \<open>\<open>String(value || fallback)\<close>\<close>
  "textOr numStr v fallback = (if truthy v then cellText numStr v else fallback)"

definition orElse :: "string \<Rightarrow> string \<Rightarrow> string" where
  \<comment> \<open>\<open>a || b\<close> on strings\<close>
  "orElse a b = (if a \<noteq> [] then a else b)"

text \<open>A \<open>Set\<close> keeps its elements in insertion order; a \<open>Map\<close> keeps its keys in the order of
  their first insertion, and \<open>set\<close> on a present key replaces the value in place.\<close>

definition setAdd :: "'a \<Rightarrow> 'a list \<Rightarrow> 'a list" where
  "setAdd x s = (if x \<in> set s then s else s @ [x])"

definition newSet :: "'a list \<Rightarrow> 'a list" where
  "newSet xs = foldl (\<lambda>s x. setAdd x s) [] xs"

definition mapGet :: "('k \<times> 'v) list \<Rightarrow> 'k \<Rightarrow> 'v option" where
  "mapGet m k = map_of m k"

fun mapSet :: "'k \<Rightarrow> 'v \<Rightarrow> ('k \<times> 'v) list \<Rightarrow> ('k \<times> 'v) list" where
  "mapSet k v [] = [(k, v)]"
| "mapSet k v (p # ps) = (if fst p = k then (k, v) # ps else p # mapSet k v ps)"

fun natToString :: "nat \<Rightarrow> string" where
  "natToString n =
     (if n < 10 then [char_of (48 + n)]
      else natToString (n div 10) @ [char_of (48 + n mod 10)])"

declare natToString.simps [simp del]

definition padStart :: "string \<Rightarrow> nat \<Rightarrow> char \<Rightarrow> string" where
  "padStart s n c = replicate (n - length s) c @ s"

section \<open>Field normalisation\<close>

datatype status = Open | InProgress | Done | Other

record task =
  taskId :: string
  taskUrl :: string
  issueType :: string
  assignee :: string
  storyPoint :: int
  name :: string
  weeks :: "string list"
  epicLink :: string
  module :: string
  status :: status

definition normalizeText :: "string \<Rightarrow> string" where
  \<comment> \<open>lower case, every run of underscores, white space and hyphens removed, trimmed\<close>
  "normalizeText v =
     trim (filter (\<lambda>c. \<not> (c = CHR ''_'' \<or> isWhiteSpace c \<or> c = CHR ''-'')) (toLowerCase v))"

definition detectColumn :: "string list \<Rightarrow> string list \<Rightarrow> string" where
  "detectColumn columns aliases =
     (let normalizedAliases = map normalizeText aliases
      in case find (\<lambda>column. normalizeText column \<in> set normalizedAliases) columns of
           Some column \<Rightarrow> column
         | None \<Rightarrow> [])"

definition normalizeStatus :: "(jsnum \<Rightarrow> string) \<Rightarrow> cell option \<Rightarrow> status" where
  "normalizeStatus numStr value =
     (let v = filter (\<lambda>c. \<not> isWhiteSpace c) (toLowerCase (cellText numStr value))
      in if v = ''open'' \<or> v = ''todo'' \<or> v = ''to-do'' \<or> v = ''new'' \<or> v = ''backlog'' then Open
         else if v = ''inprogress'' \<or> v = ''in-progress'' \<or> v = ''doing'' \<or> v = ''progress''
           then InProgress
         else if v = ''done'' \<or> v = ''closed'' then Done
         else Other)"

definition isLabelSeparator :: "char \<Rightarrow> bool" where
  \<comment> \<open>the class \<open>[;,|\s]\<close>\<close>
  "isLabelSeparator c \<longleftrightarrow> c = CHR '';'' \<or> c = CHR '','' \<or> c = CHR ''|'' \<or> isWhiteSpace c"

text \<open>\<open>text.split(/[;,|\s]+/)\<close>: the pieces between the maximal runs of separators, an empty
  piece included where the text starts or ends with a separator.\<close>

function splitRuns :: "(char \<Rightarrow> bool) \<Rightarrow> string \<Rightarrow> string list" where
  "splitRuns sep s =
     (let piece = takeWhile (\<lambda>c. \<not> sep c) s;
          rest = dropWhile (\<lambda>c. \<not> sep c) s
      in if rest = [] then [piece] else piece # splitRuns sep (dropWhile sep rest))"
  by pat_completeness auto
termination
proof (relation "measure (\<lambda>(sep, s). length s)")
  show "wf (measure (\<lambda>(sep, s). length s))" by simp
next
  fix sep :: "char \<Rightarrow> bool" and s piece rest :: string
  assume rest: "rest = dropWhile (\<lambda>c. \<not> sep c) s" and ne: "rest \<noteq> []"
  from ne obtain c cs where cs: "rest = c # cs" by (cases rest) auto
  have "length (dropWhile sep rest) \<le> length cs"
  proof -
    have "sep c" using cs rest hd_dropWhile [of "\<lambda>c. \<not> sep c" s] by auto
    then have "dropWhile sep rest = dropWhile sep cs" by (simp add: cs)
    then show ?thesis by (simp add: length_dropWhile_le)
  qed
  moreover have "length rest \<le> length s" by (simp add: rest length_dropWhile_le)
  ultimately show "((sep, dropWhile sep rest), (sep, s)) \<in> measure (\<lambda>(sep, s). length s)"
    by (simp add: cs)
qed

declare splitRuns.simps [simp del]

definition isWeekCode :: "string \<Rightarrow> bool" where
  \<comment> \<open>the pattern \<open>^W\d{1,2}$\<close>\<close>
  "isWeekCode t =
     (case t of
        c # ds \<Rightarrow> c = CHR ''W'' \<and> (length ds = 1 \<or> length ds = 2) \<and> list_all isDigit ds
      | [] \<Rightarrow> False)"

definition blankBrackets :: "string \<Rightarrow> string" where
  \<comment> \<open>\<open>.replace(/[\[\]"]/g, " ")\<close>: each bracket or double quote becomes a space\<close>
  "blankBrackets s =
     map (\<lambda>c. if c = CHR ''['' \<or> c = CHR '']'' \<or> c = CHR 0x22 then CHR '' '' else c) s"

definition parseWeekLabels :: "(jsnum \<Rightarrow> string) \<Rightarrow> cell option \<Rightarrow> string list" where
  "parseWeekLabels numStr value =
     (let raw = blankBrackets (cellText numStr value);
          weeks = filter isWeekCode
                    (map (\<lambda>item. toUpperCase (trim item)) (splitRuns isLabelSeparator raw))
      in newSet weeks)"

definition storyPointValue :: "cell option \<Rightarrow> int" where
  "storyPointValue v =
     (case toNumber v of
        Fin x \<Rightarrow> max 1 (min 5 (mathRound x))
      | _ \<Rightarrow> 0)"

definition weekNumber :: "string \<Rightarrow> nat option" where
  \<comment> \<open>the capture of \<open>/^W(\d{1,2})$/i\<close>, read as a number\<close>
  "weekNumber week =
     (case week of
        c # ds \<Rightarrow>
          if (c = CHR ''W'' \<or> c = CHR ''w'') \<and> (length ds = 1 \<or> length ds = 2) \<and> list_all isDigit ds
          then Some (digitsVal ds) else None
      | [] \<Rightarrow> None)"

definition weekIndex :: "string \<Rightarrow> nat" where
  "weekIndex week = (case weekNumber week of Some n \<Rightarrow> n | None \<Rightarrow> 999)"

definition previousWeek :: "string \<Rightarrow> string" where
  "previousWeek week =
     (case weekNumber week of
        None \<Rightarrow> []
      | Some n \<Rightarrow> if n \<le> 1 then [] else CHR ''W'' # padStart (natToString (n - 1)) 2 (CHR ''0''))"

definition statusIndex :: "status \<Rightarrow> nat" where
  "statusIndex s = (if s = Open then 0 else if s = InProgress then 1 else if s = Done then 2 else 3)"

definition twoDigits :: "nat \<Rightarrow> string" where
  "twoDigits v = padStart (natToString v) 2 (CHR ''0'')"


subsection \<open>Task key and link: \<open>parseTaskKeyCell\<close>\<close>

text \<open>
  The three patterns of \<open>parseTaskKeyCell\<close> carry the flag \<open>i\<close>. Each of them is
  deterministic (every repeated class is followed by a character outside the class), so a
  match is found by taking maximal runs; an unanchored pattern matches at the leftmost
  position where it can.
\<close>

record keyInfo =
  keyId :: string
  keyUrl :: string

definition isAlpha :: "char \<Rightarrow> bool" where
  "isAlpha c \<longleftrightarrow> isUpperAZ c \<or> isLowerAZ c"

definition isAlnum :: "char \<Rightarrow> bool" where
  "isAlnum c \<longleftrightarrow> isAlpha c \<or> isDigit c"

definition stripHttp :: "string \<Rightarrow> (string \<times> string) option" where
  \<comment> \<open>\<open>https?:\/\/\<close> at the start of the text: the matched prefix and what follows it\<close>
  "stripHttp s =
     (if toLowerCase (take 8 s) = ''https://'' then Some (take 8 s, drop 8 s)
      else if toLowerCase (take 7 s) = ''http://'' then Some (take 7 s, drop 7 s)
      else None)"

definition matchMarkdown :: "string \<Rightarrow> (string \<times> string) option" where
  \<comment> \<open>\<open>/^\[([^\]]+)\]\((https?:\/\/[^\s)]+)\)$/i\<close>: the two captures\<close>
  "matchMarkdown raw =
     (case raw of
        [] \<Rightarrow> None
      | c # r \<Rightarrow>
          if c \<noteq> CHR ''['' then None
          else
            let key = takeWhile (\<lambda>c. c \<noteq> CHR '']'') r;
                r1 = dropWhile (\<lambda>c. c \<noteq> CHR '']'') r
            in if key = [] then None
               else (case r1 of
                       b # p # r2 \<Rightarrow>
                         if p \<noteq> CHR ''('' then None
                         else
                           let url = takeWhile (\<lambda>c. \<not> isWhiteSpace c \<and> c \<noteq> CHR '')'') r2;
                               r3 = dropWhile (\<lambda>c. \<not> isWhiteSpace c \<and> c \<noteq> CHR '')'') r2
                           in if r3 \<noteq> '')'' then None
                              else (case stripHttp url of
                                      None \<Rightarrow> None
                                    | Some (pre, rest) \<Rightarrow>
                                        if rest = [] then None else Some (key, url))
                     | _ \<Rightarrow> None))"

definition isUrlChar :: "char \<Rightarrow> bool" where
  \<comment> \<open>the class \<open>[^\s|,;]\<close>\<close>
  "isUrlChar c \<longleftrightarrow> \<not> (isWhiteSpace c \<or> c = CHR ''|'' \<or> c = CHR '','' \<or> c = CHR '';'')"

definition urlAt :: "string \<Rightarrow> string option" where
  \<comment> \<open>\<open>https?:\/\/[^\s|,;]+\<close> matched at the start of the text\<close>
  "urlAt s =
     (case stripHttp s of
        None \<Rightarrow> None
      | Some (pre, rest) \<Rightarrow>
          let body = takeWhile isUrlChar rest
          in if body = [] then None else Some (pre @ body))"

definition keyAt :: "string \<Rightarrow> string option" where
  \<comment> \<open>\<open>[A-Z][A-Z0-9]+-\d+\<close> (flag \<open>i\<close>) matched at the start of the text\<close>
  "keyAt s =
     (case s of
        [] \<Rightarrow> None
      | c # r \<Rightarrow>
          if \<not> isAlpha c then None
          else
            let run = takeWhile isAlnum r;
                r1 = dropWhile isAlnum r
            in if run = [] then None
               else (case r1 of
                       [] \<Rightarrow> None
                     | d # r2 \<Rightarrow>
                         if d \<noteq> CHR ''-'' then None
                         else
                           let ds = takeWhile isDigit r2
                           in if ds = [] then None else Some (c # run @ d # ds)))"

fun findFirst :: "(string \<Rightarrow> string option) \<Rightarrow> string \<Rightarrow> string option" where
  \<comment> \<open>the leftmost match of an unanchored pattern\<close>
  "findFirst m [] = m []"
| "findFirst m (c # cs) = (case m (c # cs) of Some x \<Rightarrow> Some x | None \<Rightarrow> findFirst m cs)"

definition parseTaskKeyCell :: "(jsnum \<Rightarrow> string) \<Rightarrow> cell option \<Rightarrow> keyInfo" where
  "parseTaskKeyCell numStr value =
     (let raw = trim (cellText numStr value)
      in case matchMarkdown raw of
           Some (k, u) \<Rightarrow> \<lparr>keyId = k, keyUrl = u\<rparr>
         | None \<Rightarrow>
             let urlMatch = findFirst urlAt raw;
                 keyMatch = findFirst keyAt raw
             in (case urlMatch of
                   Some url \<Rightarrow>
                     let keyFromUrl = findFirst keyAt url
                     in \<lparr>keyId =
                           toUpperCase
                             (case keyMatch of
                                Some k \<Rightarrow> k
                              | None \<Rightarrow> (case keyFromUrl of Some k \<Rightarrow> k | None \<Rightarrow> raw)),
                         keyUrl = url\<rparr>
                 | None \<Rightarrow>
                     (case keyMatch of
                        Some k \<Rightarrow> \<lparr>keyId = toUpperCase k, keyUrl = []\<rparr>
                      | None \<Rightarrow> \<lparr>keyId = orElse raw ''-'', keyUrl = []\<rparr>)))"

section \<open>Report serializer\<close>

definition needsQuoting :: "string \<Rightarrow> bool" where
  \<comment> \<open>the text contains a comma, a line feed or a double quote\<close>
  "needsQuoting text \<longleftrightarrow> CHR '','' \<in> set text \<or> CHR 0x0A \<in> set text \<or> CHR 0x22 \<in> set text"

definition doubleQuotes :: "string \<Rightarrow> string" where
  \<comment> \<open>\<open>text.replace(/\"/g, '""')\<close>\<close>
  "doubleQuotes text = concat (map (\<lambda>c. if c = CHR 0x22 then [CHR 0x22, CHR 0x22] else [c]) text)"

definition escapeCsv :: "(jsnum \<Rightarrow> string) \<Rightarrow> cell \<Rightarrow> string" where
  "escapeCsv numStr value =
     (let text = cellText numStr (Some value)
      in if needsQuoting text then CHR 0x22 # doubleQuotes text @ [CHR 0x22] else text)"

definition toCsv :: "(jsnum \<Rightarrow> string) \<Rightarrow> string list \<Rightarrow> cell list list \<Rightarrow> string" where
  "toCsv numStr headers rows =
     (let headerLine = join '','' (map (\<lambda>h. escapeCsv numStr (CStr h)) headers);
          rowLines = map (\<lambda>row. join '','' (map (escapeCsv numStr) row)) rows
      in join [CHR 0x0A] (headerLine # rowLines))"

section \<open>Upload: column resolution and row normalisation\<close>

type_synonym rawRow = "(string \<times> cell) list"

text \<open>What the upload receives: no file, a file that cannot be decoded (any exception of the
  decoder), or the records of the first sheet, each an ordered list of header and value.\<close>

datatype upload = NoFile | Unreadable | Sheet "rawRow list"

text \<open>The user-visible message; its fixed wording is a constructor, the list of missing
  columns (joined with a comma and a space) is kept as text.\<close>

datatype message = NoMessage | EmptyFile | MissingColumns string | CannotRead

datatype copyNote = NoCopyNote | Copied string | CopyFailed

record appState =
  rawRows :: "rawRow list"
  tasks :: "task list"
  error :: message
  copied :: copyNote
  projectWeekFilter :: string
  projectModuleFilter :: string
  projectAssigneeFilter :: string
  assigneeAllWeeks :: bool
  assigneeWeekFilters :: "string list"
  compareWeekA :: string
  compareWeekB :: string

definition aliasTaskId :: "string list" where
  "aliasTaskId = [''key'', ''taskid'', ''task id'', ''id'', ''ticketid'', ''jiraid'']"

definition aliasIssueType :: "string list" where
  "aliasIssueType = [''issuetype'', ''issue type'', ''type'']"

definition aliasAssignee :: "string list" where
  "aliasAssignee = [''assignee'']"

definition aliasStoryPoint :: "string list" where
  "aliasStoryPoint = [''storypoints'', ''story points'', ''storypoint'', ''story point'']"

definition aliasName :: "string list" where
  "aliasName = [''summary'', ''name'', ''taskname'', ''task name'']"

definition aliasLabels :: "string list" where
  "aliasLabels = [''labels'', ''label'']"

definition aliasEpicLink :: "string list" where
  "aliasEpicLink = [''epiclink'', ''epic link'', ''epic'']"

definition aliasModule :: "string list" where
  "aliasModule = [''modulename'', ''module name'', ''module'', ''project'', ''projectname'']"

definition aliasStatus :: "string list" where
  "aliasStatus = [''status'', ''state'']"

definition rawRowOf :: "rawRow \<Rightarrow> rawRow" where
  \<comment> \<open>header names trimmed, text values trimmed, numbers kept; a later entry with the same
      trimmed header overwrites the earlier value in place\<close>
  "rawRowOf entries =
     foldl (\<lambda>obj (k, v). mapSet (trim k) (case v of CNum n \<Rightarrow> CNum n | CStr t \<Rightarrow> CStr (trim t)) obj)
       [] entries"

fun insertBy :: "('a \<Rightarrow> 'a \<Rightarrow> int) \<Rightarrow> 'a \<Rightarrow> 'a list \<Rightarrow> 'a list" where
  "insertBy cmp x [] = [x]"
| "insertBy cmp x (y # ys) = (if cmp x y \<le> 0 then x # y # ys else y # insertBy cmp x ys)"

fun sortBy :: "('a \<Rightarrow> 'a \<Rightarrow> int) \<Rightarrow> 'a list \<Rightarrow> 'a list" where
  \<comment> \<open>\<open>Array.prototype.sort\<close> with a comparator: a stable sort\<close>
  "sortBy cmp [] = []"
| "sortBy cmp (x # xs) = insertBy cmp x (sortBy cmp xs)"

definition orInt :: "int \<Rightarrow> int \<Rightarrow> int" where
  \<comment> \<open>\<open>a || b\<close> on comparator results\<close>
  "orInt a b = (if a \<noteq> 0 then a else b)"

definition columnsOf :: "rawRow list \<Rightarrow> string list" where
  \<comment> \<open>the distinct non-empty headers of all rows, in order of first appearance\<close>
  "columnsOf rows = newSet (filter (\<lambda>k. k \<noteq> []) (concat (map (map fst) rows)))"

definition missingColumns :: "string list \<Rightarrow> string list" where
  "missingColumns columns =
     (if detectColumn columns aliasTaskId = [] then [''Key''] else [])
     @ (if detectColumn columns aliasIssueType = [] then [''Issue Type''] else [])
     @ (if detectColumn columns aliasAssignee = [] then [''Assignee''] else [])
     @ (if detectColumn columns aliasStoryPoint = [] then [''Story Points''] else [])
     @ (if detectColumn columns aliasName = [] then [''Summary''] else [])
     @ (if detectColumn columns aliasLabels = [] then [''Labels''] else [])
     @ (if detectColumn columns aliasEpicLink = [] then [''Epic Link''] else [])
     @ (if detectColumn columns aliasModule = [] then [''ModuleName''] else [])
     @ (if detectColumn columns aliasStatus = [] then [''Status''] else [])"

definition parseTask :: "(jsnum \<Rightarrow> string) \<Rightarrow> string list \<Rightarrow> rawRow \<Rightarrow> task" where
  "parseTask numStr columns row =
     (let keyInfo = parseTaskKeyCell numStr (mapGet row (detectColumn columns aliasTaskId))
      in \<lparr>taskId = keyId keyInfo,
          taskUrl = keyUrl keyInfo,
          issueType = textOr numStr (mapGet row (detectColumn columns aliasIssueType)) ''-'',
          assignee = textOr numStr (mapGet row (detectColumn columns aliasAssignee)) ''Unknown'',
          storyPoint = storyPointValue (mapGet row (detectColumn columns aliasStoryPoint)),
          name = textOr numStr (mapGet row (detectColumn columns aliasName)) [],
          weeks = parseWeekLabels numStr (mapGet row (detectColumn columns aliasLabels)),
          epicLink = textOr numStr (mapGet row (detectColumn columns aliasEpicLink)) ''-'',
          module = textOr numStr (mapGet row (detectColumn columns aliasModule)) ''Unknown'',
          status = normalizeStatus numStr (mapGet row (detectColumn columns aliasStatus))\<rparr>)"

definition weekOrder :: "string \<Rightarrow> string \<Rightarrow> int" where
  "weekOrder a b = int (weekIndex a) - int (weekIndex b)"

definition initialState :: appState where
  \<comment> \<open>the initial values of the component state\<close>
  "initialState =
     \<lparr>rawRows = [], tasks = [], error = NoMessage, copied = NoCopyNote,
      projectWeekFilter = ''all'', projectModuleFilter = ''all'', projectAssigneeFilter = ''all'',
      assigneeAllWeeks = True, assigneeWeekFilters = [], compareWeekA = [], compareWeekB = []\<rparr>"

definition handleFileUpload :: "(jsnum \<Rightarrow> string) \<Rightarrow> appState \<Rightarrow> upload \<Rightarrow> appState" where
  "handleFileUpload numStr st file =
     (case file of
        NoFile \<Rightarrow> st
      | Unreadable \<Rightarrow> st\<lparr>error := CannotRead, copied := NoCopyNote, rawRows := [], tasks := []\<rparr>
      | Sheet parsed \<Rightarrow>
          let rows = map rawRowOf parsed
          in if rows = [] then
               st\<lparr>error := EmptyFile, copied := NoCopyNote, rawRows := [], tasks := []\<rparr>
             else
               let columns = columnsOf rows;
                   missing = missingColumns columns
               in if missing \<noteq> [] then
                    st\<lparr>error := MissingColumns (join '', '' missing), copied := NoCopyNote,
                       rawRows := rows, tasks := []\<rparr>
                  else
                    let parsedTasks = map (parseTask numStr columns) rows;
                        sortedWeeks = sortBy weekOrder (newSet (concat (map weeks parsedTasks)));
                        n = length sortedWeeks
                    in st\<lparr>error := NoMessage, copied := NoCopyNote,
                          rawRows := rows, tasks := parsedTasks,
                          projectWeekFilter := ''all'',
                          projectModuleFilter := ''all'',
                          projectAssigneeFilter := ''all'',
                          assigneeAllWeeks := True,
                          assigneeWeekFilters := [],
                          compareWeekA := (if 2 \<le> n then sortedWeeks ! (n - 2)
                                           else if sortedWeeks = [] then [] else sortedWeeks ! 0),
                          compareWeekB := (if 1 \<le> n then sortedWeeks ! (n - 1) else [])\<rparr>)"


section \<open>Aggregation views\<close>

text \<open>The string comparison \<open>a.localeCompare(b)\<close> depends on the host's collation; the views
  take it as the parameter \<open>lc\<close> (negative, zero or positive).\<close>

definition taskKey :: "task \<Rightarrow> string" where
  \<comment> \<open>\<open>task.taskId || `${task.module}||${task.name}`\<close>, the key of every merging view\<close>
  "taskKey t = orElse (taskId t) (module t @ ''||'' @ name t)"

definition mergeStatus :: "status \<Rightarrow> (string \<times> status) list \<Rightarrow> string list \<Rightarrow> (string \<times> status) list" where
  \<comment> \<open>the inner loop over \<open>task.weeks\<close>: keep the status with the larger index\<close>
  "mergeStatus st prev ws =
     foldl (\<lambda>m week.
              case mapGet m week of
                None \<Rightarrow> mapSet week st m
              | Some current \<Rightarrow> if statusIndex st > statusIndex current then mapSet week st m else m)
       prev ws"

definition addTaskStatus ::
  "(string \<times> (string \<times> status) list) list \<Rightarrow> task \<Rightarrow> (string \<times> (string \<times> status) list) list" where
  \<comment> \<open>the body of \<open>tasks.forEach\<close> that builds \<open>taskStatusByWeek\<close>\<close>
  "addTaskStatus m t =
     (let k = taskKey t;
          prev = (case mapGet m k of Some p \<Rightarrow> p | None \<Rightarrow> [])
      in mapSet k (mergeStatus (status t) prev (weeks t)) m)"

definition taskStatusByWeek :: "task list \<Rightarrow> (string \<times> (string \<times> status) list) list" where
  "taskStatusByWeek ts = foldl addTaskStatus [] ts"

definition statusAt :: "(string \<times> (string \<times> status) list) list \<Rightarrow> string \<Rightarrow> string \<Rightarrow> status option" where
  \<comment> \<open>\<open>taskStatusByWeek.get(key)?.get(week)\<close>; \<open>None\<close> is the placeholder \<open>"-"\<close>\<close>
  "statusAt m k week = (case mapGet m k of None \<Rightarrow> None | Some byWeek \<Rightarrow> mapGet byWeek week)"

subsection \<open>Grouped project listing\<close>

record projectRow =
  p_module :: string
  p_assignee :: string
  p_taskKey :: string
  p_taskId :: string
  p_taskUrl :: string
  p_issueType :: string
  p_taskName :: string
  p_epicLink :: string
  p_status :: status
  p_storyPoint :: int
  p_weeks :: string
  prevDoneStillAppear :: bool
  prevWeek :: string
  showModule :: bool
  showAssignee :: bool
  moduleRowSpan :: nat
  assigneeRowSpan :: nat


definition countKey :: "(string \<times> nat) list \<Rightarrow> string \<Rightarrow> (string \<times> nat) list" where
  \<comment> \<open>\<open>count.set(key, (count.get(key) ?? 0) + 1)\<close>\<close>
  "countKey m k = mapSet k ((case mapGet m k of Some n \<Rightarrow> n | None \<Rightarrow> 0) + 1) m"

definition assigneeKeyOf :: "task \<Rightarrow> string" where
  "assigneeKeyOf t = module t @ ''||'' @ assignee t"

fun markRows ::
  "string \<Rightarrow> (string \<times> nat) list \<Rightarrow> (string \<times> nat) list \<Rightarrow> string list \<Rightarrow> string list
     \<Rightarrow> (task \<times> bool) list \<Rightarrow> projectRow list" where
  "markRows pw moduleCount assigneeCount seenModule seenAssignee [] = []"
| "markRows pw moduleCount assigneeCount seenModule seenAssignee (row # rest) =
     (let t = fst row;
          assigneeKey = assigneeKeyOf t;
          showM = module t \<notin> set seenModule;
          showA = assigneeKey \<notin> set seenAssignee
      in \<lparr>p_module = module t,
          p_assignee = assignee t,
          p_taskKey = taskKey t,
          p_taskId = orElse (taskId t) ''-'',
          p_taskUrl = orElse (taskUrl t) [],
          p_issueType = orElse (issueType t) ''-'',
          p_taskName = orElse (name t) ''-'',
          p_epicLink = orElse (epicLink t) ''-'',
          p_status = status t,
          p_storyPoint = storyPoint t,
          p_weeks = join '','' (weeks t),
          prevDoneStillAppear = snd row,
          prevWeek = pw,
          showModule = showM,
          showAssignee = showA,
          moduleRowSpan = (case mapGet moduleCount (module t) of Some n \<Rightarrow> n | None \<Rightarrow> 1),
          assigneeRowSpan = (case mapGet assigneeCount assigneeKey of Some n \<Rightarrow> n | None \<Rightarrow> 1)\<rparr>
         # markRows pw moduleCount assigneeCount
             (if showM then setAdd (module t) seenModule else seenModule)
             (if showA then setAdd assigneeKey seenAssignee else seenAssignee)
             rest)"

definition groupRows :: "string \<Rightarrow> (task \<times> bool) list \<Rightarrow> projectRow list" where
  \<comment> \<open>the counting pass and the marking pass over the filtered, sorted rows\<close>
  "groupRows pw filtered =
     (let moduleCount = foldl countKey [] (map (\<lambda>row. module (fst row)) filtered);
          assigneeCount = foldl countKey [] (map (\<lambda>row. assigneeKeyOf (fst row)) filtered)
      in markRows pw moduleCount assigneeCount [] [] filtered)"







subsection \<open>Assignee workload histogram\<close>

record workloadRow =
  w_assignee :: string
  point1 :: nat
  point2 :: nat
  point3 :: nat
  point4 :: nat
  point5 :: nat
  total :: nat

definition addToWorkload :: "(string \<times> workloadRow) list \<Rightarrow> task \<Rightarrow> (string \<times> workloadRow) list" where
  "addToWorkload m t =
     (let prev = (case mapGet m (assignee t) of
                    Some r \<Rightarrow> r
                  | None \<Rightarrow> \<lparr>w_assignee = assignee t, point1 = 0, point2 = 0, point3 = 0,
                              point4 = 0, point5 = 0, total = 0\<rparr>)
      in mapSet (assignee t)
           (prev\<lparr>point1 := point1 prev + (if storyPoint t = 1 then 1 else 0),
                 point2 := point2 prev + (if storyPoint t = 2 then 1 else 0),
                 point3 := point3 prev + (if storyPoint t = 3 then 1 else 0),
                 point4 := point4 prev + (if storyPoint t = 4 then 1 else 0),
                 point5 := point5 prev + (if storyPoint t = 5 then 1 else 0),
                 total := total prev + 1\<rparr>)
           m)"

definition workloadOrder :: "(string \<Rightarrow> string \<Rightarrow> int) \<Rightarrow> workloadRow \<Rightarrow> workloadRow \<Rightarrow> int" where
  "workloadOrder lc a b =
     orInt (int (total b) - int (total a)) (lc (w_assignee a) (w_assignee b))"

definition assigneeMatched :: "bool \<Rightarrow> string list \<Rightarrow> task \<Rightarrow> bool" where
  "assigneeMatched allSelected weekFilters t \<longleftrightarrow>
     allSelected \<or> weekFilters = [] \<or> list_ex (\<lambda>week. week \<in> set weekFilters) (weeks t)"

definition assigneeRows ::
  "(string \<Rightarrow> string \<Rightarrow> int) \<Rightarrow> task list \<Rightarrow> bool \<Rightarrow> string list \<Rightarrow> workloadRow list" where
  "assigneeRows lc ts allSelected weekFilters =
     sortBy (workloadOrder lc)
       (map snd (foldl addToWorkload [] (filter (assigneeMatched allSelected weekFilters) ts)))"

subsection \<open>Two-week comparison\<close>

record taskEntry =
  e_taskId :: string
  e_taskName :: string
  e_module :: string
  e_assignee :: string
  statusByWeek :: "(string \<times> status) list"

datatype transition =
  NoDataInBoth | NewIn string | MissingIn string | Unchanged | Changed status status

record compareRow =
  c_taskKey :: string
  c_taskId :: string
  c_taskName :: string
  c_module :: string
  c_assignee :: string
  statusA :: "status option"
  statusB :: "status option"
  c_transition :: transition
  invalidDoneBoth :: bool

definition addToTaskMap :: "(string \<times> taskEntry) list \<Rightarrow> task \<Rightarrow> (string \<times> taskEntry) list" where
  "addToTaskMap m t =
     (let k = taskKey t;
          prev = (case mapGet m k of
                    Some e \<Rightarrow> e
                  | None \<Rightarrow> \<lparr>e_taskId = orElse (taskId t) ''-'', e_taskName = orElse (name t) ''-'',
                              e_module = module t, e_assignee = assignee t, statusByWeek = []\<rparr>)
      in mapSet k (prev\<lparr>statusByWeek := mergeStatus (status t) (statusByWeek prev) (weeks t)\<rparr>) m)"

definition taskMapOf :: "task list \<Rightarrow> (string \<times> taskEntry) list" where
  "taskMapOf ts = foldl addToTaskMap [] ts"

definition compareEntry :: "string \<Rightarrow> string \<Rightarrow> string \<times> taskEntry \<Rightarrow> compareRow" where
  "compareEntry weekA weekB entry =
     (let sA = mapGet (statusByWeek (snd entry)) weekA;
          sB = mapGet (statusByWeek (snd entry)) weekB
      in \<lparr>c_taskKey = fst entry,
          c_taskId = e_taskId (snd entry),
          c_taskName = e_taskName (snd entry),
          c_module = e_module (snd entry),
          c_assignee = e_assignee (snd entry),
          statusA = sA,
          statusB = sB,
          c_transition =
            (case (sA, sB) of
               (None, None) \<Rightarrow> NoDataInBoth
             | (None, Some b) \<Rightarrow> NewIn weekB
             | (Some a, None) \<Rightarrow> MissingIn weekB
             | (Some a, Some b) \<Rightarrow> if a = b then Unchanged else Changed a b),
          invalidDoneBoth = (sA = Some Done \<and> sB = Some Done)\<rparr>)"

definition compareOrder :: "(string \<Rightarrow> string \<Rightarrow> int) \<Rightarrow> compareRow \<Rightarrow> compareRow \<Rightarrow> int" where
  "compareOrder lc a b =
     orInt (lc (c_module a) (c_module b))
       (orInt (lc (c_assignee a) (c_assignee b))
          (orInt ((if invalidDoneBoth b then 1 else 0) - (if invalidDoneBoth a then 1 else 0))
             (lc (c_taskId a) (c_taskId b))))"

definition compareRows ::
  "(string \<Rightarrow> string \<Rightarrow> int) \<Rightarrow> task list \<Rightarrow> string \<Rightarrow> string \<Rightarrow> compareRow list" where
  "compareRows lc ts weekA weekB =
     (if weekA = [] \<or> weekB = [] then []
      else sortBy (compareOrder lc)
             (filter (\<lambda>row. statusA row \<noteq> None \<or> statusB row \<noteq> None)
                (map (compareEntry weekA weekB) (taskMapOf ts))))"

subsection \<open>Manager reminder\<close>

record reminderRow =
  r_taskKey :: string
  r_taskId :: string
  r_taskName :: string
  r_assignee :: string
  r_module :: string
  doneBoth :: bool
  missingCurrent :: bool

definition reminderEntry :: "string \<Rightarrow> string \<Rightarrow> string \<times> taskEntry \<Rightarrow> reminderRow" where
  "reminderEntry currentWeekCode managerPrevWeek entry =
     (let prevStatus = (if managerPrevWeek \<noteq> [] then mapGet (statusByWeek (snd entry)) managerPrevWeek
                        else None);
          currentStatus = mapGet (statusByWeek (snd entry)) currentWeekCode
      in \<lparr>r_taskKey = fst entry,
          r_taskId = e_taskId (snd entry),
          r_taskName = e_taskName (snd entry),
          r_assignee = e_assignee (snd entry),
          r_module = e_module (snd entry),
          doneBoth = (prevStatus = Some Done \<and> currentStatus = Some Done),
          missingCurrent = (prevStatus \<noteq> None \<and> prevStatus \<noteq> Some Done \<and> currentStatus = None)\<rparr>)"

definition reminderOrder :: "(string \<Rightarrow> string \<Rightarrow> int) \<Rightarrow> reminderRow \<Rightarrow> reminderRow \<Rightarrow> int" where
  "reminderOrder lc a b =
     orInt (lc (r_module a) (r_module b))
       (orInt (lc (r_assignee a) (r_assignee b)) (lc (r_taskId a) (r_taskId b)))"

definition managerReminderRows ::
  "(string \<Rightarrow> string \<Rightarrow> int) \<Rightarrow> task list \<Rightarrow> nat \<Rightarrow> reminderRow list" where
  \<comment> \<open>the current ISO week number is the parameter \<open>week\<close>\<close>
  "managerReminderRows lc ts week =
     (let currentWeekCode = CHR ''W'' # twoDigits week;
          managerPrevWeek = previousWeek currentWeekCode
      in sortBy (reminderOrder lc)
           (filter (\<lambda>row. doneBoth row \<or> missingCurrent row)
              (map (reminderEntry currentWeekCode managerPrevWeek) (taskMapOf ts))))"


section \<open>Vocabulary of the properties\<close>

text \<open>The nine required logical fields: the aliases that resolve each, and the display name
  under which a missing one is reported.\<close>

definition requiredFields :: "(string list \<times> string) list" where
  "requiredFields =
     [(aliasTaskId, ''Key''), (aliasIssueType, ''Issue Type''), (aliasAssignee, ''Assignee''),
      (aliasStoryPoint, ''Story Points''), (aliasName, ''Summary''), (aliasLabels, ''Labels''),
      (aliasEpicLink, ''Epic Link''), (aliasModule, ''ModuleName''), (aliasStatus, ''Status'')]"


text \<open>Re-splitting a report. The dashboard only writes reports; the reader below is the
  inverse of the serializer under the same escaping rule (a field that starts with a double
  quote runs to the closing quote, a doubled quote inside it standing for one quote; other
  fields run to the next comma or line feed), against which the round trip is stated.\<close>

datatype readerState = FieldStart | InPlain | InQuoted | AfterQuote

fun splitFrom :: "readerState \<Rightarrow> string \<Rightarrow> string list \<Rightarrow> string \<Rightarrow> string list list" where
  "splitFrom st f r [] = [rev (rev f # r)]"
| "splitFrom InQuoted f r (c # cs) =
     (if c = CHR 0x22 then splitFrom AfterQuote f r cs else splitFrom InQuoted (c # f) r cs)"
| "splitFrom st f r (c # cs) =
     (if c = CHR 0x22 \<and> st \<noteq> InPlain
        then splitFrom InQuoted (if st = FieldStart then [] else c # f) r cs
      else if c = CHR '','' then splitFrom FieldStart [] (rev f # r) cs
      else if c = CHR 0x0A then rev (rev f # r) # splitFrom FieldStart [] [] cs
      else splitFrom InPlain (c # f) r cs)"

definition splitCsv :: "string \<Rightarrow> string list list" where
  "splitCsv text = splitFrom FieldStart [] [] text"

text \<open>Data for worked examples: a comparison by character code, a task with the fields the
  views read, and a sheet row with the nine required columns.\<close>

fun codeCompare :: "string \<Rightarrow> string \<Rightarrow> int" where
  "codeCompare [] [] = 0"
| "codeCompare [] (y # ys) = - 1"
| "codeCompare (x # xs) [] = 1"
| "codeCompare (x # xs) (y # ys) =
     (if (of_char x :: nat) < of_char y then - 1
      else if (of_char y :: nat) < of_char x then 1
      else codeCompare xs ys)"

definition sampleTask :: "string \<Rightarrow> string \<Rightarrow> string \<Rightarrow> string \<Rightarrow> string list \<Rightarrow> status \<Rightarrow> task" where
  "sampleTask key m a n ws st =
     \<lparr>taskId = key, taskUrl = [], issueType = ''Task'', assignee = a, storyPoint = 1, name = n,
      weeks = ws, epicLink = ''-'', module = m, status = st\<rparr>"

definition sampleRow :: "string \<Rightarrow> string \<Rightarrow> string \<Rightarrow> string \<Rightarrow> string \<Rightarrow> string \<Rightarrow> string \<Rightarrow> rawRow" where
  "sampleRow key m a n labels st points =
     [(''Key'', CStr key), (''Issue Type'', CStr ''Task''), (''Assignee'', CStr a),
      (''Story Points'', CStr points), (''Summary'', CStr n), (''Labels'', CStr labels),
      (''Epic Link'', CStr []), (''Module Name'', CStr m), (''Status'', CStr st)]"

section \<open>Properties of the normalisers\<close>

subsection \<open>Insertion-ordered sets\<close>

lemma set_foldl_setAdd: "set (foldl (\<lambda>s x. setAdd x s) acc xs) = set acc \<union> set xs"
  by (induction xs arbitrary: acc) (auto simp: setAdd_def)

lemma distinct_foldl_setAdd: "distinct acc \<Longrightarrow> distinct (foldl (\<lambda>s x. setAdd x s) acc xs)"
  by (induction xs arbitrary: acc) (auto simp: setAdd_def)

lemma set_newSet [simp]: "set (newSet xs) = set xs"
  by (simp add: newSet_def set_foldl_setAdd)

lemma distinct_newSet [simp]: "distinct (newSet xs)"
  by (simp add: newSet_def distinct_foldl_setAdd)

subsection \<open>Week labels\<close>









subsection \<open>Story points\<close>










section \<open>Properties of the views\<close>

subsection \<open>Maps, sorting and sample data\<close>

lemma taskKey_sampleTask: "taskKey (sampleTask key m a n ws st) = orElse key (m @ ''||'' @ n)"
  by (simp add: taskKey_def sampleTask_def)

lemma sampleTask_sel [simp]:
  "taskId (sampleTask key m a n ws st) = key"
  "module (sampleTask key m a n ws st) = m"
  "assignee (sampleTask key m a n ws st) = a"
  "name (sampleTask key m a n ws st) = n"
  "weeks (sampleTask key m a n ws st) = ws"
  "status (sampleTask key m a n ws st) = st"
  "storyPoint (sampleTask key m a n ws st) = 1"
  by (simp_all add: sampleTask_def)


subsection \<open>Merged status per identity and week\<close>

lemma map_of_mapSet: "map_of (mapSet k v m) = (map_of m)(k \<mapsto> v)"
  by (induction m) (auto simp: fun_eq_iff)

lemma mapGet_mapSet: "mapGet (mapSet k v m) k' = (if k' = k then Some v else mapGet m k')"
  by (simp add: mapGet_def map_of_mapSet)

lemma mapGet_Nil [simp]: "mapGet [] k = None"
  by (simp add: mapGet_def)

lemma mapGet_mergeStatus:
  "mapGet (mergeStatus st prev ws) w =
     (if w \<in> set ws
      then Some (case mapGet prev w of None \<Rightarrow> st | Some c \<Rightarrow> if statusIndex c < statusIndex st then st else c)
      else mapGet prev w)"
  unfolding mergeStatus_def
proof (induction ws arbitrary: prev)
  case Nil
  then show ?case by simp
next
  case (Cons a ws)
  show ?case
    by (simp add: Cons.IH mapGet_mapSet split: option.splits)
qed


lemma statusAt_Nil [simp]: "statusAt [] k w = None"
  by (simp add: statusAt_def)

lemma statusAt_step:
  "statusAt (mapSet (taskKey t)
               (mergeStatus (status t) (case mapGet m (taskKey t) of Some p \<Rightarrow> p | None \<Rightarrow> []) (weeks t)) m) k w
   = (if taskKey t = k \<and> w \<in> set (weeks t)
      then Some (case statusAt m k w of
                   None \<Rightarrow> status t
                 | Some c \<Rightarrow> if statusIndex c < statusIndex (status t) then status t else c)
      else statusAt m k w)"
  by (auto simp: statusAt_def mapGet_mapSet mapGet_mergeStatus split: option.splits)

lemma statusAt_addTaskStatus:
  "statusAt (addTaskStatus m t) k w
   = (if taskKey t = k \<and> w \<in> set (weeks t)
      then Some (case statusAt m k w of
                   None \<Rightarrow> status t
                 | Some c \<Rightarrow> if statusIndex c < statusIndex (status t) then status t else c)
      else statusAt m k w)"
  by (simp add: addTaskStatus_def Let_def statusAt_step)

lemma statusAt_foldl:
  "statusAt (foldl addTaskStatus m ts) k w
   = foldl (\<lambda>acc t. if taskKey t = k \<and> w \<in> set (weeks t)
                     then Some (case acc of
                                  None \<Rightarrow> status t
                                | Some c \<Rightarrow> if statusIndex c < statusIndex (status t) then status t else c)
                     else acc)
       (statusAt m k w) ts"
  by (induction ts arbitrary: m) (simp_all add: statusAt_addTaskStatus)

lemma foldl_better:
  "foldl (\<lambda>acc t. if R t
                   then Some (case acc of
                                None \<Rightarrow> status t
                              | Some c \<Rightarrow> if statusIndex c < statusIndex (status t) then status t else c)
                   else acc) acc ts = r \<Longrightarrow>
   (r = None \<longleftrightarrow> acc = None \<and> \<not> (\<exists>t\<in>set ts. R t))
   \<and> (\<forall>x. r = Some x \<longrightarrow>
          x \<in> set_option acc \<union> status ` {t \<in> set ts. R t}
          \<and> (\<forall>s \<in> set_option acc \<union> status ` {t \<in> set ts. R t}. statusIndex s \<le> statusIndex x))"
proof (induction ts arbitrary: acc)
  case Nil
  then show ?case by auto
next
  case (Cons t ts)
  let ?acc' = "if R t
               then Some (case acc of
                            None \<Rightarrow> status t
                          | Some c \<Rightarrow> if statusIndex c < statusIndex (status t) then status t else c)
               else acc"
  have step: "foldl (\<lambda>acc t. if R t
                   then Some (case acc of
                                None \<Rightarrow> status t
                              | Some c \<Rightarrow> if statusIndex c < statusIndex (status t) then status t else c)
                   else acc) ?acc' ts = r"
    using Cons.prems by simp
  note ih = Cons.IH [OF step]
  show ?case
  proof (cases "R t")
    case False
    with ih show ?thesis by auto
  next
    case True
    show ?thesis
    proof (cases acc)
      case None
      with True ih show ?thesis by auto
    next
      case (Some c)
      with True ih show ?thesis by (auto split: if_splits)
    qed
  qed
qed


lemma statusIndex_inj: "statusIndex a = statusIndex b \<Longrightarrow> a = b"
  by (cases a; cases b) (simp_all add: statusIndex_def)

lemma statusIndex_le_Other: "statusIndex s \<le> statusIndex Other"
  by (cases s) (simp_all add: statusIndex_def)

lemma merged_status:
  fixes ts k w
  defines "S \<equiv> status ` {t \<in> set ts. taskKey t = k \<and> w \<in> set (weeks t)}"
  shows "(statusAt (taskStatusByWeek ts) k w = None \<longleftrightarrow> S = {})
    \<and> (\<forall>x. statusAt (taskStatusByWeek ts) k w = Some x \<longrightarrow>
           x \<in> S \<and> (\<forall>s\<in>S. statusIndex s \<le> statusIndex x))"
  using foldl_better [where R = "\<lambda>t. taskKey t = k \<and> w \<in> set (weeks t)" and acc = None and ts = ts, OF refl]
  unfolding S_def taskStatusByWeek_def statusAt_foldl by auto

text \<open>
  Claim C3. For every identity key and week code, the status recorded in the merged
  per-identity, per-week map is the maximum, in the order open < inprogress < done < other
  (\<open>statusIndex\<close>), of the statuses of all rows with that key that carry that week label,
  and there is no entry when no row does; a row with status \<open>other\<close> therefore overrides a
  row with status \<open>done\<close>; and the result is the same for every reordering of the rows.
\<close>

theorem merged_status_is_maximum:
  "(status ` {t \<in> set ts. taskKey t = k \<and> w \<in> set (weeks t)} = {}
      \<longrightarrow> statusAt (taskStatusByWeek ts) k w = None)
   \<and> (status ` {t \<in> set ts. taskKey t = k \<and> w \<in> set (weeks t)} \<noteq> {}
      \<longrightarrow> (\<exists>x \<in> status ` {t \<in> set ts. taskKey t = k \<and> w \<in> set (weeks t)}.
             statusAt (taskStatusByWeek ts) k w = Some x
             \<and> (\<forall>s \<in> status ` {t \<in> set ts. taskKey t = k \<and> w \<in> set (weeks t)}.
                   statusIndex s \<le> statusIndex x)))
   \<and> (Other \<in> status ` {t \<in> set ts. taskKey t = k \<and> w \<in> set (weeks t)}
      \<longrightarrow> statusAt (taskStatusByWeek ts) k w = Some Other)
   \<and> (\<forall>ts'. mset ts' = mset ts
      \<longrightarrow> statusAt (taskStatusByWeek ts') k w = statusAt (taskStatusByWeek ts) k w)"
proof -
  let ?S = "\<lambda>ts. status ` {t \<in> set ts. taskKey t = k \<and> w \<in> set (weeks t)}"
  let ?r = "\<lambda>ts. statusAt (taskStatusByWeek ts) k w"
  note m = merged_status [of ts k w]
  have a: "?S ts = {} \<longrightarrow> ?r ts = None" using m by blast
  have b: "?S ts \<noteq> {} \<longrightarrow> (\<exists>x \<in> ?S ts. ?r ts = Some x \<and> (\<forall>s \<in> ?S ts. statusIndex s \<le> statusIndex x))"
  proof
    assume "?S ts \<noteq> {}"
    with m obtain x where "?r ts = Some x" by (cases "?r ts") auto
    with m show "\<exists>x \<in> ?S ts. ?r ts = Some x \<and> (\<forall>s \<in> ?S ts. statusIndex s \<le> statusIndex x)"
      by blast
  qed
  have c: "Other \<in> ?S ts \<longrightarrow> ?r ts = Some Other"
  proof
    assume o: "Other \<in> ?S ts"
    with b obtain x where x: "?r ts = Some x" "\<forall>s \<in> ?S ts. statusIndex s \<le> statusIndex x"
      by blast
    with o have "statusIndex Other \<le> statusIndex x" by blast
    with statusIndex_le_Other [of x] have "x = Other" by (simp add: statusIndex_inj)
    with x show "?r ts = Some Other" by simp
  qed
  have d: "\<forall>ts'. mset ts' = mset ts \<longrightarrow> ?r ts' = ?r ts"
  proof (intro allI impI)
    fix ts' :: "task list"
    assume "mset ts' = mset ts"
    then have "set ts' = set ts" by (rule mset_eq_setD)
    then have eq: "?S ts' = ?S ts" by simp
    note m' = merged_status [of ts' k w]
    show "?r ts' = ?r ts"
    proof (cases "?r ts")
      case None
      with m eq m' show ?thesis by (cases "?r ts'") auto
    next
      case (Some x)
      with m have x: "x \<in> ?S ts" "\<forall>s \<in> ?S ts. statusIndex s \<le> statusIndex x" by blast+
      then have "?S ts' \<noteq> {}" using eq by auto
      with m' obtain y where y: "?r ts' = Some y" by (cases "?r ts'") auto
      with m' have y': "y \<in> ?S ts'" "\<forall>s \<in> ?S ts'. statusIndex s \<le> statusIndex y" by blast+
      from x(1) eq y'(2) have "statusIndex x \<le> statusIndex y" by blast
      moreover from y'(1) eq x(2) have "statusIndex y \<le> statusIndex x" by blast
      ultimately have "statusIndex x = statusIndex y" by simp
      then have "x = y" by (rule statusIndex_inj)
      with Some y show ?thesis by simp
    qed
  qed
  from a b c d show ?thesis by blast
qed

theorem merged_status_is_maximum_witness:
  "status ` {t \<in> set [sampleTask ''P-2'' ''Core'' ''Bo'' ''y'' [''W01''] Done,
                        sampleTask ''P-2'' ''Core'' ''Bo'' ''y'' [''W01''] Other].
               taskKey t = ''Z-9'' \<and> ''W01'' \<in> set (weeks t)} = {}
   \<and> statusAt (taskStatusByWeek [sampleTask ''P-2'' ''Core'' ''Bo'' ''y'' [''W01''] Done,
                                  sampleTask ''P-2'' ''Core'' ''Bo'' ''y'' [''W01''] Other])
        ''Z-9'' ''W01'' = None
   \<and> Other \<in> status ` {t \<in> set [sampleTask ''P-2'' ''Core'' ''Bo'' ''y'' [''W01''] Done,
                        sampleTask ''P-2'' ''Core'' ''Bo'' ''y'' [''W01''] Other].
               taskKey t = ''P-2'' \<and> ''W01'' \<in> set (weeks t)}
   \<and> statusAt (taskStatusByWeek [sampleTask ''P-2'' ''Core'' ''Bo'' ''y'' [''W01''] Done,
                                  sampleTask ''P-2'' ''Core'' ''Bo'' ''y'' [''W01''] Other])
        ''P-2'' ''W01'' = Some Other
   \<and> statusAt (taskStatusByWeek [sampleTask ''P-2'' ''Core'' ''Bo'' ''y'' [''W01''] Other,
                                  sampleTask ''P-2'' ''Core'' ''Bo'' ''y'' [''W01''] Done])
        ''P-2'' ''W01'' = Some Other"
proof -
  let ?d = "sampleTask ''P-2'' ''Core'' ''Bo'' ''y'' [''W01''] Done"
  let ?o = "sampleTask ''P-2'' ''Core'' ''Bo'' ''y'' [''W01''] Other"
  have e: "status ` {t \<in> set [?d, ?o]. taskKey t = ''Z-9'' \<and> ''W01'' \<in> set (weeks t)} = {}"
    by (auto simp: taskKey_sampleTask orElse_def)
  have o: "Other \<in> status ` {t \<in> set [?d, ?o]. taskKey t = ''P-2'' \<and> ''W01'' \<in> set (weeks t)}"
    by (auto simp: taskKey_sampleTask orElse_def image_iff)
  have p: "mset [?o, ?d] = mset [?d, ?o]" by simp
  from merged_status_is_maximum [of "[?d, ?o]" "''Z-9''" "''W01''"] e
  have 1: "statusAt (taskStatusByWeek [?d, ?o]) ''Z-9'' ''W01'' = None" by blast
  from merged_status_is_maximum [of "[?d, ?o]" "''P-2''" "''W01''"] o
  have 2: "statusAt (taskStatusByWeek [?d, ?o]) ''P-2'' ''W01'' = Some Other" by blast
  from merged_status_is_maximum [of "[?d, ?o]" "''P-2''" "''W01''"] p
  have 3: "statusAt (taskStatusByWeek [?o, ?d]) ''P-2'' ''W01''
             = statusAt (taskStatusByWeek [?d, ?o]) ''P-2'' ''W01''" by blast
  from e o 1 2 3 show ?thesis by simp
qed


subsection \<open>Two-week comparison\<close>

lemma mset_insertBy: "mset (insertBy cmp x xs) = add_mset x (mset xs)"
  by (induction xs) auto

lemma mset_sortBy: "mset (sortBy cmp xs) = mset xs"
  by (induction xs) (auto simp: mset_insertBy)

lemma set_sortBy [simp]: "set (sortBy cmp xs) = set xs"
  using mset_sortBy [of cmp xs] by (metis set_mset_mset)

lemma length_sortBy [simp]: "length (sortBy cmp xs) = length xs"
  using mset_sortBy [of cmp xs] by (metis size_mset)

lemma map_fst_mapSet: "fst ` set (mapSet k v m) = insert k (fst ` set m)"
  by (induction m) auto

lemma distinct_mapSet: "distinct (map fst m) \<Longrightarrow> distinct (map fst (mapSet k v m))"
  by (induction m) (auto simp: map_fst_mapSet)

lemma mapGet_distinct: "distinct (map fst m) \<Longrightarrow> (k, v) \<in> set m \<longleftrightarrow> mapGet m k = Some v"
  by (simp add: mapGet_def)

lemma distinct_taskMapOf_aux: "distinct (map fst m) \<Longrightarrow> distinct (map fst (foldl addToTaskMap m ts))"
  by (induction ts arbitrary: m) (simp_all add: addToTaskMap_def Let_def distinct_mapSet)

lemma distinct_taskMapOf: "distinct (map fst (taskMapOf ts))"
  by (simp add: taskMapOf_def distinct_taskMapOf_aux)

lemma map_mapSet_byWeek:
  "map (\<lambda>e. (fst e, statusByWeek (snd e))) (mapSet k v m)
   = mapSet k (statusByWeek v) (map (\<lambda>e. (fst e, statusByWeek (snd e))) m)"
  by (induction m) auto

lemma mapGet_map_byWeek:
  "mapGet (map (\<lambda>e. (fst e, statusByWeek (snd e))) m) k = map_option statusByWeek (mapGet m k)"
  unfolding mapGet_def by (induction m) auto

lemma byWeek_addToTaskMap:
  "map (\<lambda>e. (fst e, statusByWeek (snd e))) (addToTaskMap m t)
   = addTaskStatus (map (\<lambda>e. (fst e, statusByWeek (snd e))) m) t"
  by (auto simp: addToTaskMap_def addTaskStatus_def Let_def map_mapSet_byWeek mapGet_map_byWeek
      split: option.splits)

lemma byWeek_foldl:
  "map (\<lambda>e. (fst e, statusByWeek (snd e))) (foldl addToTaskMap m ts)
   = foldl addTaskStatus (map (\<lambda>e. (fst e, statusByWeek (snd e))) m) ts"
  by (induction ts arbitrary: m) (simp_all add: byWeek_addToTaskMap)

lemma byWeek_taskMapOf:
  "map (\<lambda>e. (fst e, statusByWeek (snd e))) (taskMapOf ts) = taskStatusByWeek ts"
  by (simp add: taskMapOf_def taskStatusByWeek_def byWeek_foldl)

lemma entry_statusAt:
  assumes "(k, e) \<in> set (taskMapOf ts)"
  shows "mapGet (statusByWeek e) w = statusAt (taskStatusByWeek ts) k w"
proof -
  from assms distinct_taskMapOf have "mapGet (taskMapOf ts) k = Some e"
    by (simp add: mapGet_distinct)
  then have "mapGet (taskStatusByWeek ts) k = Some (statusByWeek e)"
    unfolding byWeek_taskMapOf [symmetric] by (simp add: mapGet_map_byWeek)
  then show ?thesis by (simp add: statusAt_def)
qed

lemma statusAt_entry:
  assumes "statusAt (taskStatusByWeek ts) k w \<noteq> None"
  shows "\<exists>e. (k, e) \<in> set (taskMapOf ts)"
proof -
  from assms have "mapGet (taskStatusByWeek ts) k \<noteq> None"
    by (auto simp: statusAt_def split: option.splits)
  then have "mapGet (taskMapOf ts) k \<noteq> None"
    unfolding byWeek_taskMapOf [symmetric] by (simp add: mapGet_map_byWeek)
  then show ?thesis by (auto simp: mapGet_def dest: map_of_SomeD)
qed

lemma compareEntry_sel [simp]:
  "statusA (compareEntry weekA weekB en) = mapGet (statusByWeek (snd en)) weekA"
  "statusB (compareEntry weekA weekB en) = mapGet (statusByWeek (snd en)) weekB"
  "c_taskKey (compareEntry weekA weekB en) = fst en"
  "invalidDoneBoth (compareEntry weekA weekB en)
     \<longleftrightarrow> mapGet (statusByWeek (snd en)) weekA = Some Done \<and> mapGet (statusByWeek (snd en)) weekB = Some Done"
  by (simp_all add: compareEntry_def Let_def)

lemma compareRows_mem:
  assumes "weekA \<noteq> []" "weekB \<noteq> []"
  shows "row \<in> set (compareRows lc ts weekA weekB)
    \<longleftrightarrow> (\<exists>en \<in> set (taskMapOf ts). row = compareEntry weekA weekB en
         \<and> (mapGet (statusByWeek (snd en)) weekA \<noteq> None \<or> mapGet (statusByWeek (snd en)) weekB \<noteq> None))"
  using assms by (auto simp: compareRows_def)

text \<open>
  Claim C4. When both comparison weeks are set, a task key appears in the comparison output
  exactly when its merged status map has an entry for week A or for week B; each emitted row
  carries the merged statuses of the two weeks, and a row that is done in both has
  \<open>invalidDoneBoth\<close>; when either week is unset the view is empty.
\<close>

theorem compareRows_membership:
  "(weekA \<noteq> [] \<and> weekB \<noteq> [] \<longrightarrow>
      ((\<exists>row \<in> set (compareRows lc ts weekA weekB). c_taskKey row = k)
         \<longleftrightarrow> statusAt (taskStatusByWeek ts) k weekA \<noteq> None
             \<or> statusAt (taskStatusByWeek ts) k weekB \<noteq> None)
      \<and> (\<forall>row \<in> set (compareRows lc ts weekA weekB).
            statusA row = statusAt (taskStatusByWeek ts) (c_taskKey row) weekA
            \<and> statusB row = statusAt (taskStatusByWeek ts) (c_taskKey row) weekB
            \<and> (statusA row = Some Done \<and> statusB row = Some Done \<longrightarrow> invalidDoneBoth row)))
   \<and> (weekA = [] \<or> weekB = [] \<longrightarrow> compareRows lc ts weekA weekB = [])"
proof -
  have empty: "weekA = [] \<or> weekB = [] \<longrightarrow> compareRows lc ts weekA weekB = []"
    by (auto simp: compareRows_def)
  {
    assume ne: "weekA \<noteq> []" "weekB \<noteq> []"
    note cs = compareRows_mem [OF ne, of _ lc ts]
    have rows: "\<forall>row \<in> set (compareRows lc ts weekA weekB).
            statusA row = statusAt (taskStatusByWeek ts) (c_taskKey row) weekA
            \<and> statusB row = statusAt (taskStatusByWeek ts) (c_taskKey row) weekB
            \<and> (statusA row = Some Done \<and> statusB row = Some Done \<longrightarrow> invalidDoneBoth row)"
    proof
      fix row assume "row \<in> set (compareRows lc ts weekA weekB)"
      with cs obtain en where en: "row = compareEntry weekA weekB en" "en \<in> set (taskMapOf ts)"
        by auto
      from en(2) have "(fst en, snd en) \<in> set (taskMapOf ts)" by simp
      note es = entry_statusAt [OF this]
      show "statusA row = statusAt (taskStatusByWeek ts) (c_taskKey row) weekA
            \<and> statusB row = statusAt (taskStatusByWeek ts) (c_taskKey row) weekB
            \<and> (statusA row = Some Done \<and> statusB row = Some Done \<longrightarrow> invalidDoneBoth row)"
        by (simp add: en(1) es)
    qed
    have iff: "(\<exists>row \<in> set (compareRows lc ts weekA weekB). c_taskKey row = k)
         \<longleftrightarrow> statusAt (taskStatusByWeek ts) k weekA \<noteq> None
             \<or> statusAt (taskStatusByWeek ts) k weekB \<noteq> None"
    proof
      assume "\<exists>row \<in> set (compareRows lc ts weekA weekB). c_taskKey row = k"
      then obtain row where row: "row \<in> set (compareRows lc ts weekA weekB)" "c_taskKey row = k"
        by blast
      with cs obtain en where en: "row = compareEntry weekA weekB en" "en \<in> set (taskMapOf ts)"
        "mapGet (statusByWeek (snd en)) weekA \<noteq> None \<or> mapGet (statusByWeek (snd en)) weekB \<noteq> None"
        by auto
      from en(1) row(2) have k: "fst en = k" by simp
      from en(2) k have "(k, snd en) \<in> set (taskMapOf ts)" by auto
      note es = entry_statusAt [OF this]
      from en(3) show "statusAt (taskStatusByWeek ts) k weekA \<noteq> None
             \<or> statusAt (taskStatusByWeek ts) k weekB \<noteq> None"
        by (simp add: es)
    next
      assume r: "statusAt (taskStatusByWeek ts) k weekA \<noteq> None
             \<or> statusAt (taskStatusByWeek ts) k weekB \<noteq> None"
      then obtain e where e: "(k, e) \<in> set (taskMapOf ts)"
        using statusAt_entry by blast
      note es = entry_statusAt [OF e]
      from r have "mapGet (statusByWeek e) weekA \<noteq> None \<or> mapGet (statusByWeek e) weekB \<noteq> None"
        by (simp add: es)
      with e cs [of "compareEntry weekA weekB (k, e)"]
      have "compareEntry weekA weekB (k, e) \<in> set (compareRows lc ts weekA weekB)"
        by force
      moreover have "c_taskKey (compareEntry weekA weekB (k, e)) = k"
        by simp
      ultimately show "\<exists>row \<in> set (compareRows lc ts weekA weekB). c_taskKey row = k"
        by blast
    qed
    note iff rows
  }
  with empty show ?thesis by blast
qed

theorem compareRows_membership_witness:
  "(\<exists>row \<in> set (compareRows codeCompare [sampleTask ''P-2'' ''Core'' ''Bo'' ''y'' [''W01'', ''W02''] Done]
                     ''W01'' ''W02'').
       c_taskKey row = ''P-2'' \<and> statusA row = Some Done \<and> statusB row = Some Done
       \<and> invalidDoneBoth row)
   \<and> \<not> (\<exists>row \<in> set (compareRows codeCompare [sampleTask ''P-2'' ''Core'' ''Bo'' ''y'' [''W01'', ''W02''] Done]
                     ''W03'' ''W04''). c_taskKey row = ''P-2'')
   \<and> compareRows codeCompare [sampleTask ''P-2'' ''Core'' ''Bo'' ''y'' [''W01'', ''W02''] Done] [] ''W02'' = []"
proof -
  let ?ts = "[sampleTask ''P-2'' ''Core'' ''Bo'' ''y'' [''W01'', ''W02''] Done]"
  have a: "statusAt (taskStatusByWeek ?ts) ''P-2'' ''W01'' = Some Done"
    by code_simp
  have b: "statusAt (taskStatusByWeek ?ts) ''P-2'' ''W02'' = Some Done"
    by code_simp
  have c: "statusAt (taskStatusByWeek ?ts) ''P-2'' ''W03'' = None"
    by code_simp
  have d: "statusAt (taskStatusByWeek ?ts) ''P-2'' ''W04'' = None"
    by code_simp
  have n: "''W01'' \<noteq> []" "''W02'' \<noteq> []" "''W03'' \<noteq> []" "''W04'' \<noteq> []" by simp_all
  note t1 = compareRows_membership [of "''W01''" "''W02''" codeCompare ?ts "''P-2''"]
  note t2 = compareRows_membership [of "''W03''" "''W04''" codeCompare ?ts "''P-2''"]
  note t3 = compareRows_membership [of "[]" "''W02''" codeCompare ?ts "''P-2''"]
  from t1 n a obtain row where row: "row \<in> set (compareRows codeCompare ?ts ''W01'' ''W02'')"
    "c_taskKey row = ''P-2''" by blast
  from t1 n row(1) have "statusA row = statusAt (taskStatusByWeek ?ts) (c_taskKey row) ''W01''"
    "statusB row = statusAt (taskStatusByWeek ?ts) (c_taskKey row) ''W02''"
    "statusA row = Some Done \<and> statusB row = Some Done \<longrightarrow> invalidDoneBoth row"
    by blast+
  with row a b have 1: "\<exists>row \<in> set (compareRows codeCompare ?ts ''W01'' ''W02'').
       c_taskKey row = ''P-2'' \<and> statusA row = Some Done \<and> statusB row = Some Done
       \<and> invalidDoneBoth row"
    by auto
  from t2 n c d have 3: "\<not> (\<exists>row \<in> set (compareRows codeCompare ?ts ''W03'' ''W04''). c_taskKey row = ''P-2'')"
    by blast
  from t3 have 4: "compareRows codeCompare ?ts [] ''W02'' = []" by blast
  from 1 3 4 show ?thesis by blast
qed

subsection \<open>Identity of rows with a blank key\<close>

lemma blank_key_cell:
  "trim (cellText numStr v) = [] \<Longrightarrow> parseTaskKeyCell numStr v = \<lparr>keyId = ''-'', keyUrl = []\<rparr>"
  by (simp add: parseTaskKeyCell_def matchMarkdown_def orElse_def keyAt_def urlAt_def stripHttp_def
      toLowerCase_def)

lemma blank_key_taskKey:
  "trim (cellText numStr (mapGet row (detectColumn cols aliasTaskId))) = [] \<Longrightarrow>
   taskKey (parseTask numStr cols row) = ''-''"
  by (simp add: parseTask_def Let_def taskKey_def blank_key_cell orElse_def)

text \<open>
  Claim C1, evaluated on the code. A blank key cell is parsed to the placeholder \<open>"-"\<close>, which
  is a non-empty string, so the identity key of such a task is \<open>"-"\<close> and not the composite of
  module and name: two tasks of different modules and names, both with a blank key, are merged
  into one comparison row.
\<close>

theorem blank_key_rows_share_placeholder_identity:
  "parseTaskKeyCell numStr (Some (CStr [])) = \<lparr>keyId = ''-'', keyUrl = []\<rparr>
   \<and> taskKey (sampleTask ''-'' ''Ui'' ''An'' ''Login'' [''W01''] Done) = ''-''
   \<and> taskKey (sampleTask ''-'' ''Api'' ''Bo'' ''Export'' [''W02''] Open) = ''-''
   \<and> map (\<lambda>r. (c_taskKey r, c_module r, c_taskName r, statusA r, statusB r))
        (compareRows codeCompare
           [sampleTask ''-'' ''Ui'' ''An'' ''Login'' [''W01''] Done,
            sampleTask ''-'' ''Api'' ''Bo'' ''Export'' [''W02''] Open] ''W01'' ''W02'')
      = [(''-'', ''Ui'', ''Login'', Some Done, Some Open)]"
proof -
  have 1: "parseTaskKeyCell numStr (Some (CStr [])) = \<lparr>keyId = ''-'', keyUrl = []\<rparr>"
    by (rule blank_key_cell) (simp add: cellText_def trim_def)
  have 2: "taskKey (sampleTask ''-'' ''Ui'' ''An'' ''Login'' [''W01''] Done) = ''-''"
    "taskKey (sampleTask ''-'' ''Api'' ''Bo'' ''Export'' [''W02''] Open) = ''-''"
    by (simp_all add: taskKey_sampleTask orElse_def)
  have 3: "map (\<lambda>r. (c_taskKey r, c_module r, c_taskName r, statusA r, statusB r))
        (compareRows codeCompare
           [sampleTask ''-'' ''Ui'' ''An'' ''Login'' [''W01''] Done,
            sampleTask ''-'' ''Api'' ''Bo'' ''Export'' [''W02''] Open] ''W01'' ''W02'')
      = [(''-'', ''Ui'', ''Login'', Some Done, Some Open)]"
    by code_simp
  from 1 2 3 show ?thesis by blast
qed

theorem blank_key_rows_share_placeholder_identity_witness:
  "parseTaskKeyCell (\<lambda>n. []) (Some (CStr [])) = \<lparr>keyId = ''-'', keyUrl = []\<rparr>
   \<and> taskKey (sampleTask ''-'' ''Ui'' ''An'' ''Login'' [''W01''] Done) = ''-''
   \<and> taskKey (sampleTask ''-'' ''Api'' ''Bo'' ''Export'' [''W02''] Open) = ''-''
   \<and> map (\<lambda>r. (c_taskKey r, c_module r, c_taskName r, statusA r, statusB r))
        (compareRows codeCompare
           [sampleTask ''-'' ''Ui'' ''An'' ''Login'' [''W01''] Done,
            sampleTask ''-'' ''Api'' ''Bo'' ''Export'' [''W02''] Open] ''W01'' ''W02'')
      = [(''-'', ''Ui'', ''Login'', Some Done, Some Open)]"
  by (rule blank_key_rows_share_placeholder_identity [of "\<lambda>n. []"])

subsection \<open>Missing required columns\<close>

lemma missingColumns_table:
  "missingColumns cols = map snd (filter (\<lambda>f. detectColumn cols (fst f) = []) requiredFields)"
  by (simp add: missingColumns_def requiredFields_def)

lemma missingColumns_nonempty:
  "missingColumns cols \<noteq> [] \<longleftrightarrow> (\<exists>f \<in> set requiredFields. detectColumn cols (fst f) = [])"
  by (simp add: missingColumns_table filter_empty_conv)

text \<open>
  Claim C8. When the upload has rows and at least one of the nine required fields is not
  resolved over the union of headers, the upload sets one message that lists the display
  name of every unresolved field (in the fixed order, joined by a comma and a space), keeps
  the raw rows and leaves the task list empty; when the status field is the only unresolved
  one, the message names exactly \<open>Status\<close>.
\<close>

theorem missing_columns_reported:
  assumes "parsed \<noteq> []"
    and "\<exists>f \<in> set requiredFields. detectColumn (columnsOf (map rawRowOf parsed)) (fst f) = []"
  shows "error (handleFileUpload numStr st (Sheet parsed))
           = MissingColumns
               (join '', '' (map snd (filter (\<lambda>f. detectColumn (columnsOf (map rawRowOf parsed)) (fst f) = [])
                                        requiredFields)))
    \<and> rawRows (handleFileUpload numStr st (Sheet parsed)) = map rawRowOf parsed
    \<and> tasks (handleFileUpload numStr st (Sheet parsed)) = []
    \<and> ((\<forall>f \<in> set requiredFields.
           detectColumn (columnsOf (map rawRowOf parsed)) (fst f) = [] \<longleftrightarrow> snd f = ''Status'')
        \<longrightarrow> error (handleFileUpload numStr st (Sheet parsed)) = MissingColumns ''Status'')"
proof -
  let ?cols = "columnsOf (map rawRowOf parsed)"
  from assms(2) have ne: "missingColumns ?cols \<noteq> []"
    by (simp add: missingColumns_nonempty)
  have st: "handleFileUpload numStr st (Sheet parsed)
      = st\<lparr>error := MissingColumns (join '', '' (missingColumns ?cols)), copied := NoCopyNote,
            rawRows := map rawRowOf parsed, tasks := []\<rparr>"
    using assms(1) ne by (simp add: handleFileUpload_def Let_def)
  have only: "(\<forall>f \<in> set requiredFields. detectColumn ?cols (fst f) = [] \<longleftrightarrow> snd f = ''Status'')
      \<longrightarrow> missingColumns ?cols = [''Status'']"
    by (simp add: missingColumns_def requiredFields_def)
  show ?thesis
    using only by (auto simp: st missingColumns_table [symmetric])
qed

lemma normalized_aliases:
  "map normalizeText aliasTaskId = [''key'', ''taskid'', ''taskid'', ''id'', ''ticketid'', ''jiraid'']"
  "map normalizeText aliasIssueType = [''issuetype'', ''issuetype'', ''type'']"
  "map normalizeText aliasAssignee = [''assignee'']"
  "map normalizeText aliasStoryPoint = [''storypoints'', ''storypoints'', ''storypoint'', ''storypoint'']"
  "map normalizeText aliasName = [''summary'', ''name'', ''taskname'', ''taskname'']"
  "map normalizeText aliasLabels = [''labels'', ''label'']"
  "map normalizeText aliasEpicLink = [''epiclink'', ''epiclink'', ''epic'']"
  "map normalizeText aliasModule = [''modulename'', ''modulename'', ''module'', ''project'', ''projectname'']"
  "map normalizeText aliasStatus = [''status'', ''state'']"
  by code_simp+

lemma normalized_headers:
  "normalizeText ''Key'' = ''key''"
  "normalizeText ''Issue Type'' = ''issuetype''"
  "normalizeText ''Assignee'' = ''assignee''"
  "normalizeText ''Story Points'' = ''storypoints''"
  "normalizeText ''Summary'' = ''summary''"
  "normalizeText ''Labels'' = ''labels''"
  "normalizeText ''Epic Link'' = ''epiclink''"
  "normalizeText ''Module Name'' = ''modulename''"
  "normalizeText ''Status'' = ''status''"
  by code_simp+

lemma columns_without_status:
  "columnsOf (map rawRowOf
      [[(''Key'', CStr ''A-1''), (''Issue Type'', CStr ''Bug''), (''Assignee'', CStr ''An''),
        (''Story Points'', CNum (Fin 3)), (''Summary'', CStr ''Fix''), (''Labels'', CStr ''W01''),
        (''Epic Link'', CStr []), (''Module Name'', CStr ''Core'')]])
   = [''Key'', ''Issue Type'', ''Assignee'', ''Story Points'', ''Summary'', ''Labels'', ''Epic Link'',
      ''Module Name'']"
  by code_simp

lemma detect_without_status:
  "detectColumn [''Key'', ''Issue Type'', ''Assignee'', ''Story Points'', ''Summary'', ''Labels'',
      ''Epic Link'', ''Module Name''] aliasTaskId = ''Key''"
  "detectColumn [''Key'', ''Issue Type'', ''Assignee'', ''Story Points'', ''Summary'', ''Labels'',
      ''Epic Link'', ''Module Name''] aliasIssueType = ''Issue Type''"
  "detectColumn [''Key'', ''Issue Type'', ''Assignee'', ''Story Points'', ''Summary'', ''Labels'',
      ''Epic Link'', ''Module Name''] aliasAssignee = ''Assignee''"
  "detectColumn [''Key'', ''Issue Type'', ''Assignee'', ''Story Points'', ''Summary'', ''Labels'',
      ''Epic Link'', ''Module Name''] aliasStoryPoint = ''Story Points''"
  "detectColumn [''Key'', ''Issue Type'', ''Assignee'', ''Story Points'', ''Summary'', ''Labels'',
      ''Epic Link'', ''Module Name''] aliasName = ''Summary''"
  "detectColumn [''Key'', ''Issue Type'', ''Assignee'', ''Story Points'', ''Summary'', ''Labels'',
      ''Epic Link'', ''Module Name''] aliasLabels = ''Labels''"
  "detectColumn [''Key'', ''Issue Type'', ''Assignee'', ''Story Points'', ''Summary'', ''Labels'',
      ''Epic Link'', ''Module Name''] aliasEpicLink = ''Epic Link''"
  "detectColumn [''Key'', ''Issue Type'', ''Assignee'', ''Story Points'', ''Summary'', ''Labels'',
      ''Epic Link'', ''Module Name''] aliasModule = ''Module Name''"
  "detectColumn [''Key'', ''Issue Type'', ''Assignee'', ''Story Points'', ''Summary'', ''Labels'',
      ''Epic Link'', ''Module Name''] aliasStatus = []"
  by (simp_all add: detectColumn_def normalized_aliases normalized_headers)


theorem missing_columns_reported_witness:
  "error (handleFileUpload (\<lambda>n. []) initialState (Sheet
      [[(''Key'', CStr ''A-1''), (''Issue Type'', CStr ''Bug''), (''Assignee'', CStr ''An''),
        (''Story Points'', CNum (Fin 3)), (''Summary'', CStr ''Fix''), (''Labels'', CStr ''W01''),
        (''Epic Link'', CStr []), (''Module Name'', CStr ''Core'')]])) = MissingColumns ''Status''
   \<and> tasks (handleFileUpload (\<lambda>n. []) initialState (Sheet
      [[(''Key'', CStr ''A-1''), (''Issue Type'', CStr ''Bug''), (''Assignee'', CStr ''An''),
        (''Story Points'', CNum (Fin 3)), (''Summary'', CStr ''Fix''), (''Labels'', CStr ''W01''),
        (''Epic Link'', CStr []), (''Module Name'', CStr ''Core'')]])) = []
   \<and> rawRows (handleFileUpload (\<lambda>n. []) initialState (Sheet
      [[(''Key'', CStr ''A-1''), (''Issue Type'', CStr ''Bug''), (''Assignee'', CStr ''An''),
        (''Story Points'', CNum (Fin 3)), (''Summary'', CStr ''Fix''), (''Labels'', CStr ''W01''),
        (''Epic Link'', CStr []), (''Module Name'', CStr ''Core'')]]))
      = map rawRowOf [[(''Key'', CStr ''A-1''), (''Issue Type'', CStr ''Bug''), (''Assignee'', CStr ''An''),
        (''Story Points'', CNum (Fin 3)), (''Summary'', CStr ''Fix''), (''Labels'', CStr ''W01''),
        (''Epic Link'', CStr []), (''Module Name'', CStr ''Core'')]]"
proof -
  let ?sheet = "[[(''Key'', CStr ''A-1''), (''Issue Type'', CStr ''Bug''), (''Assignee'', CStr ''An''),
        (''Story Points'', CNum (Fin 3)), (''Summary'', CStr ''Fix''), (''Labels'', CStr ''W01''),
        (''Epic Link'', CStr []), (''Module Name'', CStr ''Core'')]]"
  have ne: "?sheet \<noteq> []" by simp
  have only: "\<forall>f \<in> set requiredFields.
      detectColumn (columnsOf (map rawRowOf ?sheet)) (fst f) = [] \<longleftrightarrow> snd f = ''Status''"
    unfolding columns_without_status by (simp add: requiredFields_def detect_without_status)
  have "(aliasStatus, ''Status'') \<in> set requiredFields" by (simp add: requiredFields_def)
  with only have ex: "\<exists>f \<in> set requiredFields. detectColumn (columnsOf (map rawRowOf ?sheet)) (fst f) = []"
    by force
  note rep = missing_columns_reported [OF ne ex, of "\<lambda>n. []" initialState]
  from rep have 1: "rawRows (handleFileUpload (\<lambda>n. []) initialState (Sheet ?sheet)) = map rawRowOf ?sheet"
    by (rule conjunct1 [OF conjunct2])
  from rep have 2: "tasks (handleFileUpload (\<lambda>n. []) initialState (Sheet ?sheet)) = []"
    by (rule conjunct1 [OF conjunct2 [OF conjunct2]])
  from rep have "(\<forall>f \<in> set requiredFields.
           detectColumn (columnsOf (map rawRowOf ?sheet)) (fst f) = [] \<longleftrightarrow> snd f = ''Status'')
        \<longrightarrow> error (handleFileUpload (\<lambda>n. []) initialState (Sheet ?sheet)) = MissingColumns ''Status''"
    by (rule conjunct2 [OF conjunct2 [OF conjunct2]])
  with only have 3: "error (handleFileUpload (\<lambda>n. []) initialState (Sheet ?sheet)) = MissingColumns ''Status''"
    by (rule rev_mp)
  from 3 2 1 show ?thesis by (intro conjI)
qed

subsection \<open>Blank story points in the workload histogram\<close>

lemma distinct_workload_aux:
  "distinct (map fst m) \<Longrightarrow> distinct (map fst (foldl addToWorkload m ts))"
  by (induction ts arbitrary: m) (simp_all add: addToWorkload_def Let_def distinct_mapSet)

lemma addToWorkload_other:
  "a \<noteq> assignee t \<Longrightarrow> mapGet (addToWorkload m t) a = mapGet m a"
  by (simp add: addToWorkload_def Let_def mapGet_mapSet)

lemma addToWorkload_new:
  "mapGet m (assignee t) = None \<Longrightarrow>
   \<exists>r. mapGet (addToWorkload m t) (assignee t) = Some r \<and> w_assignee r = assignee t
       \<and> point1 r = (if storyPoint t = 1 then 1 else 0)"
  by (simp add: addToWorkload_def Let_def mapGet_mapSet)

lemma addToWorkload_old:
  "mapGet m (assignee t) = Some p \<Longrightarrow>
   \<exists>r. mapGet (addToWorkload m t) (assignee t) = Some r \<and> w_assignee r = w_assignee p
       \<and> point1 r = point1 p + (if storyPoint t = 1 then 1 else 0)"
  by (simp add: addToWorkload_def Let_def mapGet_mapSet)

lemma workload_bucket1:
  "(a \<notin> assignee ` set ts \<longrightarrow> mapGet (foldl addToWorkload [] ts) a = None)
   \<and> (a \<in> assignee ` set ts \<longrightarrow>
        (\<exists>r. mapGet (foldl addToWorkload [] ts) a = Some r \<and> w_assignee r = a
            \<and> point1 r = length (filter (\<lambda>t. assignee t = a \<and> storyPoint t = 1) ts)))"
proof (induction ts rule: rev_induct)
  case Nil
  then show ?case by simp
next
  case (snoc t ts)
  let ?m = "foldl addToWorkload [] ts"
  show ?case
  proof (cases "assignee t = a")
    case False
    with snoc show ?thesis
      by (simp add: addToWorkload_other)
  next
    case True
    show ?thesis
    proof (cases "a \<in> assignee ` set ts")
      case False
      with snoc have none: "mapGet ?m (assignee t) = None" using True by simp
      from False have "filter (\<lambda>t. assignee t = a \<and> storyPoint t = 1) ts = []"
        by (auto simp: filter_empty_conv)
      with addToWorkload_new [OF none] True show ?thesis by auto
    next
      case in_ts: True
      with snoc obtain p where p: "mapGet ?m a = Some p" "w_assignee p = a"
        "point1 p = length (filter (\<lambda>t. assignee t = a \<and> storyPoint t = 1) ts)"
        by auto
      from p(1) True have "mapGet ?m (assignee t) = Some p" by simp
      from addToWorkload_old [OF this] p True show ?thesis by auto
    qed
  qed
qed

lemma assigneeRows_bucket1:
  assumes "r \<in> set (assigneeRows lc ts allSel fs)"
  shows "point1 r = length (filter (\<lambda>t. assigneeMatched allSel fs t \<and> assignee t = w_assignee r
                                        \<and> storyPoint t = 1) ts)"
proof -
  let ?ms = "filter (assigneeMatched allSel fs) ts"
  let ?m = "foldl addToWorkload [] ?ms"
  from assms obtain a where a: "(a, r) \<in> set ?m"
    by (auto simp: assigneeRows_def)
  have "distinct (map fst ?m)" by (simp add: distinct_workload_aux)
  with a have g: "mapGet ?m a = Some r" by (simp add: mapGet_distinct)
  with workload_bucket1 [of a ?ms] have "a \<in> assignee ` set ?ms" by (cases "a \<in> assignee ` set ?ms") auto
  with workload_bucket1 [of a ?ms] g
  have "w_assignee r = a" "point1 r = length (filter (\<lambda>t. assignee t = a \<and> storyPoint t = 1) ?ms)"
    by auto
  then show ?thesis by (simp add: conj_commute conj_left_commute)
qed

lemma assigneeRows_has_row:
  assumes "t \<in> set ts" "assigneeMatched allSel fs t"
  shows "\<exists>r \<in> set (assigneeRows lc ts allSel fs). w_assignee r = assignee t"
proof -
  let ?ms = "filter (assigneeMatched allSel fs) ts"
  let ?m = "foldl addToWorkload [] ?ms"
  from assms have "assignee t \<in> assignee ` set ?ms" by auto
  with workload_bucket1 [of "assignee t" ?ms]
  obtain r where r: "mapGet ?m (assignee t) = Some r" "w_assignee r = assignee t" by auto
  then have "(assignee t, r) \<in> set ?m" by (auto simp: mapGet_def dest: map_of_SomeD)
  then have "r \<in> set (assigneeRows lc ts allSel fs)"
    by (force simp: assigneeRows_def)
  with r show ?thesis by blast
qed

lemma toNumber_blank: "toNumber (Some (CStr [])) = Fin 0"
  by (simp add: toNumber_def stringToNumber_def trim_def)

lemma storyPoint_blank: "storyPointValue (Some (CStr [])) = 1"
  by (simp add: storyPointValue_def toNumber_blank mathRound_def)

text \<open>
  Claim C10. The numeric conversion of the empty string is the finite value 0, so a blank
  story-point cell is normalised to 1 and not to the sentinel 0; in the workload histogram
  every counted task has a row for its assignee, and bucket 1 of a row counts the counted
  tasks of that assignee whose story point equals that of a blank cell.
\<close>

theorem blank_story_point_counts_as_one:
  "toNumber (Some (CStr [])) = Fin 0
   \<and> storyPointValue (Some (CStr [])) = 1
   \<and> (\<forall>t \<in> set ts. assigneeMatched allSel fs t
         \<longrightarrow> (\<exists>r \<in> set (assigneeRows lc ts allSel fs). w_assignee r = assignee t))
   \<and> (\<forall>r \<in> set (assigneeRows lc ts allSel fs).
         point1 r = length (filter (\<lambda>t. assigneeMatched allSel fs t \<and> assignee t = w_assignee r
                                          \<and> storyPoint t = storyPointValue (Some (CStr []))) ts))"
  using assigneeRows_bucket1 assigneeRows_has_row
  by (simp add: toNumber_blank storyPoint_blank)

theorem blank_story_point_counts_as_one_witness:
  "assigneeMatched True [] (sampleTask ''A-1'' ''Core'' ''An'' ''x'' [''W01''] Open)
   \<and> (\<exists>r \<in> set (assigneeRows codeCompare [sampleTask ''A-1'' ''Core'' ''An'' ''x'' [''W01''] Open] True []).
         w_assignee r = ''An'' \<and> point1 r = 1)"
proof -
  let ?t = "sampleTask ''A-1'' ''Core'' ''An'' ''x'' [''W01''] Open"
  have m: "assigneeMatched True [] ?t" by (simp add: assigneeMatched_def)
  note b = blank_story_point_counts_as_one [of "[?t]" True "[]" codeCompare]
  from b m obtain r where r: "r \<in> set (assigneeRows codeCompare [?t] True [])" "w_assignee r = assignee ?t"
    by auto
  from b r(1) have "point1 r = length (filter (\<lambda>t. assigneeMatched True [] t \<and> assignee t = w_assignee r
                                          \<and> storyPoint t = storyPointValue (Some (CStr []))) [?t])"
    by blast
  with r(2) m b have "point1 r = 1" by simp
  with r m show ?thesis by auto
qed


subsection \<open>Staleness warning of the grouped listing\<close>


lemma length_markRows [simp]: "length (markRows pw mc ac sm sa xs) = length xs"
  by (induction xs arbitrary: sm sa) (simp_all add: Let_def)



















subsection \<open>Group spans of the grouped listing\<close>





















lemma length_groupRows [simp]: "length (groupRows pw xs) = length xs"
  by (simp add: groupRows_def Let_def)

















lemma mem_of_map: "map f xs = ys \<Longrightarrow> x \<in> set xs \<Longrightarrow> f x \<in> set ys"
  by auto


section \<open>Properties of the report serializer\<close>

lemma plain_run:
  "\<forall>c \<in> set t. c \<noteq> CHR '','' \<and> c \<noteq> CHR 0x0A \<Longrightarrow>
   splitFrom InPlain f r (t @ rest) = splitFrom InPlain (rev t @ f) r rest"
  by (induction t arbitrary: f) simp_all

lemma plain_field:
  assumes "\<not> needsQuoting t"
  shows "splitFrom FieldStart [] r (t @ rest)
         = (if t = [] then splitFrom FieldStart [] r rest else splitFrom InPlain (rev t) r rest)"
proof (cases t)
  case Nil
  then show ?thesis by simp
next
  case (Cons c cs)
  with assms have c: "c \<noteq> CHR 0x22" "c \<noteq> CHR '',''" "c \<noteq> CHR 0x0A"
    and cs: "\<forall>c \<in> set cs. c \<noteq> CHR '','' \<and> c \<noteq> CHR 0x0A"
    by (auto simp: needsQuoting_def)
  from c have "splitFrom FieldStart [] r (t @ rest) = splitFrom InPlain [c] r (cs @ rest)"
    by (simp add: Cons)
  also have "\<dots> = splitFrom InPlain (rev cs @ [c]) r rest"
    by (rule plain_run [OF cs])
  finally show ?thesis by (simp add: Cons)
qed

lemma quoted_run:
  "splitFrom InQuoted f r (doubleQuotes t @ CHR 0x22 # rest) = splitFrom AfterQuote (rev t @ f) r rest"
  by (induction t arbitrary: f) (simp_all add: doubleQuotes_def)

lemma escaped_field:
  "\<exists>st. (st = FieldStart \<and> t = [] \<or> st = InPlain \<or> st = AfterQuote)
        \<and> (\<forall>rest. splitFrom FieldStart [] r (escapeCsv numStr (CStr t) @ rest)
                     = splitFrom st (rev t) r rest)"
proof (cases "needsQuoting t")
  case True
  have "splitFrom FieldStart [] r (escapeCsv numStr (CStr t) @ rest) = splitFrom AfterQuote (rev t) r rest"
    for rest
  proof -
    from True have "splitFrom FieldStart [] r (escapeCsv numStr (CStr t) @ rest)
        = splitFrom InQuoted [] r (doubleQuotes t @ CHR 0x22 # rest)"
      by (simp add: escapeCsv_def cellText_def)
    also have "\<dots> = splitFrom AfterQuote (rev t) r rest"
      using quoted_run [of "[]" r t rest] by simp
    finally show ?thesis .
  qed
  then show ?thesis by blast
next
  case False
  then have e: "escapeCsv numStr (CStr t) = t" by (simp add: escapeCsv_def cellText_def)
  show ?thesis
  proof (cases "t = []")
    case True
    then show ?thesis unfolding e by (intro exI [of _ FieldStart]) simp
  next
    case ne: False
    with False show ?thesis unfolding e by (intro exI [of _ InPlain]) (simp add: plain_field)
  qed
qed

lemma field_then_end:
  "splitFrom FieldStart [] r (escapeCsv numStr (CStr t)) = [rev (t # r)]"
proof -
  from escaped_field [of t r numStr] obtain st
    where "splitFrom FieldStart [] r (escapeCsv numStr (CStr t) @ []) = splitFrom st (rev t) r []"
    by blast
  then show ?thesis by simp
qed

lemma field_then_comma:
  "splitFrom FieldStart [] r (escapeCsv numStr (CStr t) @ CHR '','' # cs) = splitFrom FieldStart [] (t # r) cs"
proof -
  from escaped_field [of t r numStr] obtain st
    where st: "st = FieldStart \<and> t = [] \<or> st = InPlain \<or> st = AfterQuote"
      and eq: "splitFrom FieldStart [] r (escapeCsv numStr (CStr t) @ CHR '','' # cs)
               = splitFrom st (rev t) r (CHR '','' # cs)"
    by blast
  from st show ?thesis unfolding eq by auto
qed

lemma field_then_newline:
  "splitFrom FieldStart [] r (escapeCsv numStr (CStr t) @ CHR 0x0A # cs)
   = rev (t # r) # splitFrom FieldStart [] [] cs"
proof -
  from escaped_field [of t r numStr] obtain st
    where st: "st = FieldStart \<and> t = [] \<or> st = InPlain \<or> st = AfterQuote"
      and eq: "splitFrom FieldStart [] r (escapeCsv numStr (CStr t) @ CHR 0x0A # cs)
               = splitFrom st (rev t) r (CHR 0x0A # cs)"
    by blast
  from st show ?thesis unfolding eq by auto
qed

lemma row_then_end:
  "fs \<noteq> [] \<Longrightarrow>
   splitFrom FieldStart [] r (join '','' (map (\<lambda>t. escapeCsv numStr (CStr t)) fs)) = [rev r @ fs]"
proof (induction fs arbitrary: r rule: induct_list012)
  case 1
  then show ?case by simp
next
  case (2 t)
  show ?case by (simp add: field_then_end)
next
  case (3 t u us)
  have "splitFrom FieldStart [] r (join '','' (map (\<lambda>t. escapeCsv numStr (CStr t)) (t # u # us)))
      = splitFrom FieldStart [] (t # r) (join '','' (map (\<lambda>t. escapeCsv numStr (CStr t)) (u # us)))"
    by (simp add: field_then_comma)
  also have "\<dots> = [rev (t # r) @ (u # us)]"
    by (rule "3.IH"(2)) simp
  finally show ?case by simp
qed

lemma row_then_newline:
  "fs \<noteq> [] \<Longrightarrow>
   splitFrom FieldStart [] r (join '','' (map (\<lambda>t. escapeCsv numStr (CStr t)) fs) @ CHR 0x0A # cs)
   = (rev r @ fs) # splitFrom FieldStart [] [] cs"
proof (induction fs arbitrary: r rule: induct_list012)
  case 1
  then show ?case by simp
next
  case (2 t)
  show ?case by (simp add: field_then_newline)
next
  case (3 t u us)
  have "splitFrom FieldStart [] r
          (join '','' (map (\<lambda>t. escapeCsv numStr (CStr t)) (t # u # us)) @ CHR 0x0A # cs)
      = splitFrom FieldStart [] (t # r)
          (join '','' (map (\<lambda>t. escapeCsv numStr (CStr t)) (u # us)) @ CHR 0x0A # cs)"
    by (simp add: field_then_comma)
  also have "\<dots> = (rev (t # r) @ (u # us)) # splitFrom FieldStart [] [] cs"
    by (rule "3.IH"(2)) simp
  finally show ?case by simp
qed

lemma all_rows:
  assumes "ls \<noteq> []" and "\<forall>fs \<in> set ls. fs \<noteq> []"
  shows "splitFrom FieldStart [] []
           (join [CHR 0x0A] (map (\<lambda>fs. join '','' (map (\<lambda>t. escapeCsv numStr (CStr t)) fs)) ls)) = ls"
  using assms
proof (induction ls rule: induct_list012)
  case 1
  then show ?case by simp
next
  case (2 l)
  then have "l \<noteq> []" by simp
  from row_then_end [OF this, of "[]" numStr] show ?case by simp
next
  case (3 l m ms)
  then have l: "l \<noteq> []" by simp
  let ?tail = "join [CHR 0x0A] (map (\<lambda>fs. join '','' (map (\<lambda>t. escapeCsv numStr (CStr t)) fs)) (m # ms))"
  have "splitFrom FieldStart [] []
           (join [CHR 0x0A] (map (\<lambda>fs. join '','' (map (\<lambda>t. escapeCsv numStr (CStr t)) fs)) (l # m # ms)))
      = splitFrom FieldStart [] [] (join '','' (map (\<lambda>t. escapeCsv numStr (CStr t)) l) @ (CHR 0x0A # ?tail))"
    by simp
  also have "\<dots> = l # splitFrom FieldStart [] [] ?tail"
    using row_then_newline [OF l, of "[]" numStr ?tail] by simp
  also have "splitFrom FieldStart [] [] ?tail = m # ms"
    by (rule "3.IH"(2)) (use "3.prems" in simp_all)
  finally show ?case .
qed

lemma escapeCsv_text: "escapeCsv numStr c = escapeCsv numStr (CStr (cellText numStr (Some c)))"
  by (simp add: escapeCsv_def cellText_def)

lemma toCsv_lines:
  "toCsv numStr headers rows
   = join [CHR 0x0A] (map (\<lambda>fs. join '','' (map (\<lambda>t. escapeCsv numStr (CStr t)) fs))
                        (headers # map (map (\<lambda>c. cellText numStr (Some c))) rows))"
  by (simp add: toCsv_def Let_def comp_def escapeCsv_text [symmetric])

lemma doubleQuotes_no_quote_free: "CHR 0x22 \<notin> set t \<Longrightarrow> doubleQuotes t = t"
  by (induction t) (auto simp: doubleQuotes_def)

text \<open>
  Claim C7, as the code has it. For a header row with at least one column and data rows with
  at least one cell each, re-splitting the serialized report gives back the header names and
  the text of every cell; and a field is written as a double quote, the text with each
  double quote doubled, and a double quote exactly when its text contains a comma, a line
  feed or a double quote, and is written unchanged otherwise.
\<close>

theorem csv_round_trip:
  assumes "headers \<noteq> []" and "\<forall>row \<in> set rows. row \<noteq> []"
  shows "splitCsv (toCsv numStr headers rows) = headers # map (map (\<lambda>c. cellText numStr (Some c))) rows
    \<and> (\<forall>c. (needsQuoting (cellText numStr (Some c))
              \<longleftrightarrow> (\<exists>body. escapeCsv numStr c = CHR 0x22 # body @ [CHR 0x22]))
           \<and> (needsQuoting (cellText numStr (Some c))
              \<longrightarrow> escapeCsv numStr c = CHR 0x22 # doubleQuotes (cellText numStr (Some c)) @ [CHR 0x22])
           \<and> (\<not> needsQuoting (cellText numStr (Some c))
              \<longrightarrow> escapeCsv numStr c = cellText numStr (Some c)))"
proof -
  have rt: "splitCsv (toCsv numStr headers rows) = headers # map (map (\<lambda>c. cellText numStr (Some c))) rows"
    unfolding splitCsv_def toCsv_lines
    by (rule all_rows) (use assms in auto)
  have q: "(needsQuoting (cellText numStr (Some c))
              \<longleftrightarrow> (\<exists>body. escapeCsv numStr c = CHR 0x22 # body @ [CHR 0x22]))
           \<and> (needsQuoting (cellText numStr (Some c))
              \<longrightarrow> escapeCsv numStr c = CHR 0x22 # doubleQuotes (cellText numStr (Some c)) @ [CHR 0x22])
           \<and> (\<not> needsQuoting (cellText numStr (Some c))
              \<longrightarrow> escapeCsv numStr c = cellText numStr (Some c))" for c
  proof (cases "needsQuoting (cellText numStr (Some c))")
    case True
    then show ?thesis by (simp add: escapeCsv_def)
  next
    case False
    then have e: "escapeCsv numStr c = cellText numStr (Some c)" by (simp add: escapeCsv_def)
    from False have nq: "CHR 0x22 \<notin> set (cellText numStr (Some c))" by (simp add: needsQuoting_def)
    have "\<not> (\<exists>body. cellText numStr (Some c) = CHR 0x22 # body @ [CHR 0x22])"
    proof
      assume "\<exists>body. cellText numStr (Some c) = CHR 0x22 # body @ [CHR 0x22]"
      then obtain body where "cellText numStr (Some c) = CHR 0x22 # body @ [CHR 0x22]" by blast
      then have "CHR 0x22 \<in> set (cellText numStr (Some c))" by simp
      with nq show False by simp
    qed
    with False e show ?thesis by simp
  qed
  from rt q show ?thesis by blast
qed

lemma empty_report_texts:
  "toCsv (\<lambda>n. []) [] [] = []"
  "toCsv (\<lambda>n. []) [[]] [] = []"
  "splitCsv [] = [[[]]]"
  by (simp_all add: toCsv_def splitCsv_def escapeCsv_def cellText_def needsQuoting_def)

text \<open>
  Claim C7, as stated, fails for a row without cells: an empty header row and a header row
  of one empty name are both serialized to the empty text, so no reader can give back both;
  the reader returns one row of one empty field.
\<close>

theorem csv_round_trip_empty_row_counterexample:
  "toCsv (\<lambda>n. []) [] [] = toCsv (\<lambda>n. []) [[]] []
   \<and> splitCsv (toCsv (\<lambda>n. []) [] []) \<noteq> [] # map (map (\<lambda>c. cellText (\<lambda>n. []) (Some c))) []"
  by (simp add: empty_report_texts)

theorem csv_round_trip_witness:
  "splitCsv (toCsv (\<lambda>n. []) [''Task ID'', ''Summary'']
       [[CStr ''A-1'', CStr ''Fix a, b''], [CStr ''A-2'', CStr (''say '' @ [CHR 0x22] @ ''hi'' @ [CHR 0x22])]])
     = [[''Task ID'', ''Summary''], [''A-1'', ''Fix a, b''], [''A-2'', ''say '' @ [CHR 0x22] @ ''hi'' @ [CHR 0x22]]]
   \<and> needsQuoting ''Fix a, b''
   \<and> escapeCsv (\<lambda>n. []) (CStr ''Fix a, b'') = CHR 0x22 # doubleQuotes ''Fix a, b'' @ [CHR 0x22]
   \<and> \<not> needsQuoting ''A-1''
   \<and> escapeCsv (\<lambda>n. []) (CStr ''A-1'') = ''A-1''"
proof -
  let ?rows = "[[CStr ''A-1'', CStr ''Fix a, b''], [CStr ''A-2'', CStr (''say '' @ [CHR 0x22] @ ''hi'' @ [CHR 0x22])]]"
  have h: "[''Task ID'', ''Summary''] \<noteq> []" by simp
  have r: "\<forall>row \<in> set ?rows. row \<noteq> []" by simp
  note t = csv_round_trip [OF h r, of "\<lambda>n. []"]
  have q1: "needsQuoting ''Fix a, b''" by (simp add: needsQuoting_def)
  have q2: "\<not> needsQuoting ''A-1''" by (simp add: needsQuoting_def)
  from t have 1: "splitCsv (toCsv (\<lambda>n. []) [''Task ID'', ''Summary''] ?rows)
     = [''Task ID'', ''Summary''] # map (map (\<lambda>c. cellText (\<lambda>n. []) (Some c))) ?rows"
    by (rule conjunct1)
  from t have a: "\<forall>c. (needsQuoting (cellText (\<lambda>n. []) (Some c))
              \<longleftrightarrow> (\<exists>body. escapeCsv (\<lambda>n. []) c = CHR 0x22 # body @ [CHR 0x22]))
           \<and> (needsQuoting (cellText (\<lambda>n. []) (Some c))
              \<longrightarrow> escapeCsv (\<lambda>n. []) c = CHR 0x22 # doubleQuotes (cellText (\<lambda>n. []) (Some c)) @ [CHR 0x22])
           \<and> (\<not> needsQuoting (cellText (\<lambda>n. []) (Some c))
              \<longrightarrow> escapeCsv (\<lambda>n. []) c = cellText (\<lambda>n. []) (Some c))"
    by (rule conjunct2)
  from a [THEN spec, of "CStr ''Fix a, b''"] q1
  have 2: "escapeCsv (\<lambda>n. []) (CStr ''Fix a, b'') = CHR 0x22 # doubleQuotes ''Fix a, b'' @ [CHR 0x22]"
    by (simp add: cellText_def)
  from a [THEN spec, of "CStr ''A-1''"] q2
  have 3: "escapeCsv (\<lambda>n. []) (CStr ''A-1'') = ''A-1''"
    by (simp add: cellText_def)
  from 1 have split: "splitCsv (toCsv (\<lambda>n. []) [''Task ID'', ''Summary''] ?rows)
     = [[''Task ID'', ''Summary''], [''A-1'', ''Fix a, b''], [''A-2'', ''say '' @ [CHR 0x22] @ ''hi'' @ [CHR 0x22]]]"
    by (simp add: cellText_def)
  from split q1 2 q2 3 show ?thesis by (intro conjI)
qed

end
